theory Spec2Isabelle
  imports Main "HOL-Library.Word" "HOL-Library.Sublist" "HOL-Library.Multiset"
begin

unbundle bit_operations_syntax

section \<open>JavaScript values the SDK computes with\<close>

subsection \<open>Numbers\<close>

text \<open>
  Every number the SDK handles is either the result of \<^verbatim>\<open>parseInt\<close> (an integer-valued
  double, \<^verbatim>\<open>NaN\<close> or an infinity) or an \<^verbatim>\<open>OPERATION_SCOPE\<close> capability mask, so the finite
  numbers are modelled by their integer value. \<^verbatim>\<open>-0\<close> is identified with \<^verbatim>\<open>0\<close>: the SDK applies
  only \<^verbatim>\<open>===\<close>, \<^verbatim>\<open>&\<close> and \<^verbatim>\<open>|\<close> to numbers, and none of them tells the two zeros apart.
\<close>

datatype number = NaN | Infinity | NegInfinity | Fin int

text \<open>
  The Number value for a mathematical integer: round to nearest, ties to even, with 53
  bits of precision; an integer that rounds to \<open>2 ^ 1024\<close> or more becomes an infinity.
  \<open>ulp a\<close> is the spacing of the doubles around \<open>a\<close>: 1 below \<open>2 ^ 53\<close>, doubling with
  every further bit.
\<close>

function ulp :: "int \<Rightarrow> int" where
  "ulp a = (if a < 2 ^ 53 then 1 else 2 * ulp (a div 2))"
  by pat_completeness auto
termination
  by (relation "measure nat") auto

declare ulp.simps [simp del]

definition number_of_int :: "int \<Rightarrow> number" where
  "number_of_int n =
     (let a = \<bar>n\<bar> in
      if a \<le> 2 ^ 53 then Fin n
      else
        let d = ulp a;
            q = a div d;
            r = a mod d;
            q' = (if d < 2 * r \<or> (2 * r = d \<and> odd q) then q + 1 else q);
            v = q' * d
        in if 2 ^ 1024 \<le> v then (if n < 0 then NegInfinity else Infinity)
           else Fin (if n < 0 then - v else v))"

text \<open>\<^verbatim>\<open>ToInt32\<close>: \<^verbatim>\<open>NaN\<close> and the infinities become 0, an integer is taken modulo \<open>2 ^ 32\<close>.\<close>

definition ToInt32 :: "number \<Rightarrow> 32 word" where
  "ToInt32 x = (case x of Fin n \<Rightarrow> word_of_int n | _ \<Rightarrow> 0)"

text \<open>The operators \<^verbatim>\<open>a & b\<close> and \<^verbatim>\<open>a | b\<close>: both operands through \<^verbatim>\<open>ToInt32\<close>, the result
  read back as a signed 32-bit integer.\<close>

definition js_bitand :: "number \<Rightarrow> number \<Rightarrow> number" where
  "js_bitand a b = Fin (sint (ToInt32 a AND ToInt32 b))"

definition js_bitor :: "number \<Rightarrow> number \<Rightarrow> number" where
  "js_bitor a b = Fin (sint (ToInt32 a OR ToInt32 b))"

text \<open>The operator \<^verbatim>\<open>a === b\<close> on numbers: \<^verbatim>\<open>NaN\<close> equals nothing, itself included.\<close>

definition js_strict_eq :: "number \<Rightarrow> number \<Rightarrow> bool" where
  "js_strict_eq a b = (a \<noteq> NaN \<and> b \<noteq> NaN \<and> a = b)"

subsection \<open>Strings\<close>

text \<open>
  A string is the list of its code units; the model covers code units below 256.
  \<^verbatim>\<open>s.split(c)\<close> for a separator of one character: the pieces between the separators, the
  empty ones included, so the empty string splits into one empty piece.
\<close>

fun split :: "char \<Rightarrow> string \<Rightarrow> string list" where
  "split c [] = [[]]"
| "split c (x # xs) =
     (if x = c then [] # split c xs
      else (case split c xs of [] \<Rightarrow> [[x]] | w # ws \<Rightarrow> (x # w) # ws))"

text \<open>\<^verbatim>\<open>xs.join(sep)\<close> on an array of strings.\<close>

fun join :: "string \<Rightarrow> string list \<Rightarrow> string" where
  "join sep [] = []"
| "join sep [x] = x"
| "join sep (x # y # ys) = x @ sep @ join sep (y # ys)"

text \<open>Array destructuring \<^verbatim>\<open>const [a, b, c, d, e] = xs\<close>: a position past the end of the
  array is bound to \<^verbatim>\<open>undefined\<close>, written \<open>None\<close>.\<close>

definition element :: "'a list \<Rightarrow> nat \<Rightarrow> 'a option" where
  "element xs i = (if i < length xs then Some (xs ! i) else None)"

text \<open>\<^verbatim>\<open>ToString\<close> of a value that is a string or \<^verbatim>\<open>undefined\<close>.\<close>

definition ToString :: "string option \<Rightarrow> string" where
  "ToString v = (case v of None \<Rightarrow> ''undefined'' | Some s \<Rightarrow> s)"

subsection \<open>parseInt\<close>

text \<open>White space and line terminators among the code units below 256.\<close>

definition is_whitespace :: "char \<Rightarrow> bool" where
  "is_whitespace c = (of_char c \<in> {9, 10, 11, 12, 13, 32, 160 :: nat})"

text \<open>The value of a digit or letter, for radices up to 36.\<close>

definition digit_of :: "char \<Rightarrow> nat option" where
  "digit_of c =
     (let n = of_char c :: nat in
      if 48 \<le> n \<and> n \<le> 57 then Some (n - 48)
      else if 97 \<le> n \<and> n \<le> 122 then Some (n - 87)
      else if 65 \<le> n \<and> n \<le> 90 then Some (n - 55)
      else None)"

definition is_radix_digit :: "int \<Rightarrow> char \<Rightarrow> bool" where
  "is_radix_digit R c = (case digit_of c of None \<Rightarrow> False | Some d \<Rightarrow> int d < R)"

definition radix_value :: "int \<Rightarrow> string \<Rightarrow> int" where
  "radix_value R Z =
     foldl (\<lambda>acc c. acc * R + (case digit_of c of None \<Rightarrow> 0 | Some d \<Rightarrow> int d)) 0 Z"

text \<open>The sign and the rest of a string with its leading white space removed.\<close>

definition sign_and_rest :: "string \<Rightarrow> int \<times> string" where
  "sign_and_rest inputString =
     (case dropWhile is_whitespace inputString of
        [] \<Rightarrow> (1, [])
      | c # cs \<Rightarrow>
          if c = CHR ''-'' then (- 1, cs)
          else if c = CHR ''+'' then (1, cs)
          else (1, c # cs))"

definition has_hex_prefix :: "string \<Rightarrow> bool" where
  "has_hex_prefix inputString =
     (let S = snd (sign_and_rest inputString) in take 2 S = ''0x'' \<or> take 2 S = ''0X'')"

text \<open>
  \<^verbatim>\<open>parseInt(string, radix)\<close> of ECMAScript, with \<open>R0\<close> the radix after \<^verbatim>\<open>ToInt32\<close> (0 when
  the argument is left out): leading white space and one sign are dropped, with radix 0
  or 16 a prefix \<^verbatim>\<open>0x\<close> or \<^verbatim>\<open>0X\<close> is dropped and selects radix 16, radix 0 otherwise means
  10, and the longest prefix of digits of the radix is the value; no digit gives \<^verbatim>\<open>NaN\<close>.
\<close>

definition js_parseInt :: "string \<Rightarrow> int \<Rightarrow> number" where
  "js_parseInt inputString R0 =
     (let sign = fst (sign_and_rest inputString);
          S = snd (sign_and_rest inputString)
      in if R0 \<noteq> 0 \<and> (R0 < 2 \<or> 36 < R0) then NaN
         else
           let hex = ((R0 = 0 \<or> R0 = 16) \<and> has_hex_prefix inputString);
               R = (if hex then 16 else if R0 = 0 then 10 else R0);
               Z = takeWhile (is_radix_digit R) (if hex then drop 2 S else S)
           in if Z = [] then NaN else number_of_int (sign * radix_value R Z))"

text \<open>The call \<^verbatim>\<open>parseInt(scope)\<close> of the constructor: no radix, and an argument that is
  \<^verbatim>\<open>undefined\<close> when the key has fewer than two fields.\<close>

definition parseInt :: "string option \<Rightarrow> number" where
  "parseInt v = js_parseInt (ToString v) 0"

text \<open>The specification's reading of the scope field: parsed as a base-10 integer.\<close>

definition parse_base10 :: "string option \<Rightarrow> number" where
  "parse_base10 v = js_parseInt (ToString v) 10"

section \<open>The authorization gate (index.ts)\<close>

text \<open>
  \<^verbatim>\<open>const isCommandAllowed = (scope: number, flag: number) => {
    if (scope === 0) return true
    return (scope & flag) === flag
  }\<close>
\<close>

definition isCommandAllowed :: "number \<Rightarrow> number \<Rightarrow> bool" where
  "isCommandAllowed scope flag =
     (if js_strict_eq scope (Fin 0) then True
      else js_strict_eq (js_bitand scope flag) flag)"

text \<open>
  The specification's reading of the check, on mathematical integers: every bit set in
  \<open>requiredMask\<close> is also set in \<open>grantedScope\<close>.
\<close>

definition every_bit_granted :: "int \<Rightarrow> int \<Rightarrow> bool" where
  "every_bit_granted grantedScope requiredMask = (requiredMask AND grantedScope = requiredMask)"

text \<open>
  \<^verbatim>\<open>const verifyAuthorizedCommand = (scope, flag, message = 'Operation is not allowed.') => {
    if (!isCommandAllowed(scope, flag)) { throw Error(message) }
  }\<close>
  A thrown value is a \<open>failure\<close>. A function that throws to its caller returns \<open>Inl\<close> of
  the failure, one that returns normally returns \<open>Inr\<close> of its value.
\<close>

datatype failure =
    Error string
  | TypeError
  | TransportFailure string

text \<open>
  A settled promise. Every guarded method is \<^verbatim>\<open>async\<close>: a call returns a promise, and a
  failure thrown inside the body (before or after an \<^verbatim>\<open>await\<close>) rejects that promise; it
  is not thrown to the caller.
\<close>

datatype 'a promise = Rejected failure | Fulfilled 'a

definition verifyAuthorizedCommand :: "number \<Rightarrow> number \<Rightarrow> string option \<Rightarrow> failure + unit" where
  "verifyAuthorizedCommand scope flag message =
     (if \<not> isCommandAllowed scope flag
      then Inl (Error (case message of None \<Rightarrow> ''Operation is not allowed.'' | Some m \<Rightarrow> m))
      else Inr ())"

section \<open>The session and its surroundings\<close>

text \<open>
  The module \<^verbatim>\<open>./constants\<close> is not among the sources. Its table \<^verbatim>\<open>OPERATION_SCOPE\<close> is a
  parameter of every operation: one number for each capability the sources name.
\<close>

record OPERATION_SCOPE =
  READ_FILE :: number
  UPLOAD_FILE :: number
  DELETE_FILE :: number
  READ_DIRECTORY :: number
  CREATE_DIRECTORY :: number
  DELETE_DIRECTORY :: number

text \<open>
  Values of type \<^verbatim>\<open>any\<close>: request bodies and response data. A Number is one of the
  numbers above, a BigInt is a mathematical integer.
\<close>

datatype jsvalue =
    JUndefined
  | JNull
  | JBoolean bool
  | JNumber number
  | JBigInt int
  | JString string
  | JArray "jsvalue list"
  | JObject "(string \<times> jsvalue) list"

text \<open>
  What the SDK hands to axios: the verb, the URL, the headers and the body. A
  \<^verbatim>\<open>FormData\<close> body is the list of the appended entries, each a string or a file.
\<close>

datatype verb = GET | POST | PUT | DELETE

datatype form_value = FormString string | FormFile string

datatype payload = NoBody | JsonBody jsvalue | FormBody "(string \<times> form_value) list"

record http_request =
  verb :: verb
  url :: string
  headers :: "(string \<times> string) list"
  payload :: payload

record response =
  status :: int
  data :: jsvalue

text \<open>
  The HTTP transport is outside the SDK: given the requests sent before and the request,
  it rejects with a reason or resolves with a response.
\<close>

type_synonym transport = "http_request list \<Rightarrow> http_request \<Rightarrow> string + response"

text \<open>
  The socket.io client, as far as the SDK uses it. A listener is one of the closures the
  SDK registers; a callback of the caller is named by a number. \<open>active\<close> is the socket's
  property of that name: set by \<^verbatim>\<open>connect()\<close>, cleared by \<^verbatim>\<open>disconnect()\<close>; whether the
  connection is established is the transport's matter and is not modelled.
\<close>

datatype handler =
    Callback nat
  | TotalSizeChange nat
  | ReadDirectoryEvent string nat
  | ReadDirectorySegmentChange string nat

record socket =
  uri :: string
  auth_token :: string
  autoConnect :: bool
  active :: bool
  listeners :: "(string \<times> handler) list"
  emitted :: "string list"

definition io :: "string \<Rightarrow> string \<Rightarrow> bool \<Rightarrow> socket" where
  "io u token auto =
     \<lparr>uri = u, auth_token = token, autoConnect = auto, active = auto,
      listeners = [], emitted = []\<rparr>"

record DeltaStorageSDK =
  apiKey :: string
  scope :: number
  host :: string
  edgeToken :: "string option"
  listener :: socket

text \<open>
  The constructor (index.ts, lines 31 to 50). \<open>NODE_ENV\<close> is \<^verbatim>\<open>process.env.NODE_ENV\<close>.
  \<^verbatim>\<open>host.slice(-1)\<close> is the last character, or the empty string; \<^verbatim>\<open>host.slice(0, -1)\<close>
  is the string without it.
\<close>

definition new_DeltaStorageSDK :: "string option \<Rightarrow> string \<Rightarrow> DeltaStorageSDK" where
  "new_DeltaStorageSDK NODE_ENV key =
     (let fields = split CHR ''.'' key;
          scope' = element fields 1;
          edgeToken' = element fields 4;
          host0 = (if NODE_ENV = Some ''development'' then ''http://localhost:1337''
                   else ''https://api.delta.storage'');
          host1 = (if (if host0 = [] then [] else [last host0]) = ''/'' then butlast host0
                   else host0)
      in \<lparr>apiKey = key, scope = parseInt scope', host = host1, edgeToken = edgeToken',
          listener = io host1 key False\<rparr>)"

text \<open>
  The state the operations run in: the client object, the requests handed to axios so
  far (oldest first) and the invocations of the caller's callbacks that the events so
  far lead to. The refreshes of the listeners complete in no fixed order, so these
  invocations are kept without an order.
\<close>

record world =
  sdk :: DeltaStorageSDK
  sent :: "http_request list"
  delivered :: "(nat \<times> jsvalue) multiset"

text \<open>A call of axios hands the request to the transport and returns a promise.\<close>

definition axios :: "transport \<Rightarrow> http_request \<Rightarrow> world \<Rightarrow> response promise \<times> world" where
  "axios t req w =
     ((case t (sent w) req of Inl e \<Rightarrow> Rejected (TransportFailure e) | Inr r \<Rightarrow> Fulfilled r),
      w\<lparr>sent := sent w @ [req]\<rparr>)"

text \<open>The headers object of every request: \<^verbatim>\<open>{ Authorization: `Bearer ${this.apiKey}` }\<close>.\<close>

definition bearer :: "world \<Rightarrow> (string \<times> string) list" where
  "bearer w = [(''Authorization'', ''Bearer '' @ apiKey (sdk w))]"

text \<open>\<^verbatim>\<open>id ?? ''\<close> inside a template string.\<close>

definition or_empty :: "string option \<Rightarrow> string" where
  "or_empty v = (case v of None \<Rightarrow> [] | Some s \<Rightarrow> s)"

text \<open>An optional value placed in an object literal: \<^verbatim>\<open>undefined\<close> when left out.\<close>

definition opt_string :: "string option \<Rightarrow> jsvalue" where
  "opt_string v = (case v of None \<Rightarrow> JUndefined | Some s \<Rightarrow> JString s)"

definition opt_strings :: "string list option \<Rightarrow> jsvalue" where
  "opt_strings v = (case v of None \<Rightarrow> JUndefined | Some xs \<Rightarrow> JArray (map JString xs))"

section \<open>The resource operations of the class (index.ts)\<close>

text \<open>
  Each method is a function of the capability table, the transport, its arguments and
  the world; it returns the promise the caller gets, as it settles, and the world
  afterwards. A method whose body throws in \<^verbatim>\<open>verifyAuthorizedCommand\<close> leaves at once,
  with its promise rejected.
\<close>

definition readFile ::
  "OPERATION_SCOPE \<Rightarrow> transport \<Rightarrow> string option \<Rightarrow> world \<Rightarrow> response promise \<times> world" where
  "readFile C t ident w =
     (case verifyAuthorizedCommand (scope (sdk w)) (READ_FILE C)
             (Some ''READ_FILE is not allowed.'') of
        Inl e \<Rightarrow> (Rejected e, w)
      | Inr _ \<Rightarrow>
          axios t \<lparr>verb = GET, url = host (sdk w) @ ''/api/files/'' @ or_empty ident,
                   headers = bearer w, payload = NoBody\<rparr> w)"

definition uploadFile ::
  "OPERATION_SCOPE \<Rightarrow> transport \<Rightarrow> string \<Rightarrow> form_value \<Rightarrow> string \<Rightarrow> string \<Rightarrow> world \<Rightarrow>
     response promise \<times> world" where
  "uploadFile C t name file collectionName directoryId w =
     (case verifyAuthorizedCommand (scope (sdk w)) (UPLOAD_FILE C)
             (Some ''UPLOAD_FILE is not allowed.'') of
        Inl e \<Rightarrow> (Rejected e, w)
      | Inr _ \<Rightarrow>
          (let formData =
                 [(''name'', FormString name),
                  (''file'', file),
                  (''collectionName'', FormString collectionName),
                  (''directoryId'', FormString directoryId),
                  (''edgeToken'', FormString (ToString (edgeToken (sdk w))))]
           in axios t \<lparr>verb = POST, url = host (sdk w) @ ''/api/files/upload'',
                       headers = bearer w, payload = FormBody formData\<rparr> w))"

definition deleteFile ::
  "OPERATION_SCOPE \<Rightarrow> transport \<Rightarrow> string \<Rightarrow> world \<Rightarrow> response promise \<times> world" where
  "deleteFile C t ident w =
     (case verifyAuthorizedCommand (scope (sdk w)) (DELETE_FILE C)
             (Some ''DELETE_FILE is not allowed.'') of
        Inl e \<Rightarrow> (Rejected e, w)
      | Inr _ \<Rightarrow>
          axios t \<lparr>verb = DELETE, url = host (sdk w) @ ''/api/files/'' @ ident,
                   headers = bearer w, payload = NoBody\<rparr> w)"

definition renameFile ::
  "OPERATION_SCOPE \<Rightarrow> transport \<Rightarrow> string \<Rightarrow> string \<Rightarrow> world \<Rightarrow> response promise \<times> world" where
  "renameFile C t ident name w =
     (case verifyAuthorizedCommand (scope (sdk w)) (js_bitor (UPLOAD_FILE C) (DELETE_FILE C))
             (Some ''RENAME_FILE is not allowed.'') of
        Inl e \<Rightarrow> (Rejected e, w)
      | Inr _ \<Rightarrow>
          axios t \<lparr>verb = PUT, url = host (sdk w) @ ''/api/files/'' @ ident,
                   headers = bearer w,
                   payload = JsonBody (JObject [(''name'', JString name)])\<rparr> w)"

definition readDirectory ::
  "OPERATION_SCOPE \<Rightarrow> transport \<Rightarrow> string option \<Rightarrow> world \<Rightarrow> response promise \<times> world" where
  "readDirectory C t ident w =
     (case verifyAuthorizedCommand (scope (sdk w)) (READ_DIRECTORY C)
             (Some ''READ_DIRECTORY is not allowed.'') of
        Inl e \<Rightarrow> (Rejected e, w)
      | Inr _ \<Rightarrow>
          axios t \<lparr>verb = GET, url = host (sdk w) @ ''/api/directory/'' @ or_empty ident,
                   headers = bearer w, payload = NoBody\<rparr> w)"

definition readDirectoryBySegment ::
  "OPERATION_SCOPE \<Rightarrow> transport \<Rightarrow> string \<Rightarrow> world \<Rightarrow> response promise \<times> world" where
  "readDirectoryBySegment C t segments w =
     (case verifyAuthorizedCommand (scope (sdk w)) (READ_DIRECTORY C)
             (Some ''READ_DIRECTORY is not allowed.'') of
        Inl e \<Rightarrow> (Rejected e, w)
      | Inr _ \<Rightarrow>
          (let query = join ''&segment='' (split CHR ''/'' segments)
           in axios t \<lparr>verb = GET, url = host (sdk w) @ ''/api/directory?segment='' @ query,
                       headers = bearer w, payload = NoBody\<rparr> w))"

definition createDirectory ::
  "OPERATION_SCOPE \<Rightarrow> transport \<Rightarrow> string \<Rightarrow> string option \<Rightarrow> world \<Rightarrow>
     response promise \<times> world" where
  "createDirectory C t name parentDirectoryId w =
     (case verifyAuthorizedCommand (scope (sdk w)) (CREATE_DIRECTORY C)
             (Some ''CREATE_DIRECTORY is not allowed.'') of
        Inl e \<Rightarrow> (Rejected e, w)
      | Inr _ \<Rightarrow>
          axios t \<lparr>verb = POST, url = host (sdk w) @ ''/api/directory/create'',
                   headers = bearer w,
                   payload = JsonBody (JObject [(''name'', JString name),
                     (''parentDirectoryId'', opt_string parentDirectoryId)])\<rparr> w)"

definition renameDirectory ::
  "OPERATION_SCOPE \<Rightarrow> transport \<Rightarrow> string \<Rightarrow> string \<Rightarrow> world \<Rightarrow> response promise \<times> world" where
  "renameDirectory C t ident name w =
     (case verifyAuthorizedCommand (scope (sdk w))
             (js_bitor (CREATE_DIRECTORY C) (DELETE_DIRECTORY C))
             (Some ''UPDATE_DIRECTORY is not allowed.'') of
        Inl e \<Rightarrow> (Rejected e, w)
      | Inr _ \<Rightarrow>
          axios t \<lparr>verb = PUT, url = host (sdk w) @ ''/api/directory/'' @ ident,
                   headers = bearer w,
                   payload = JsonBody (JObject [(''name'', JString name)])\<rparr> w)"

definition move ::
  "OPERATION_SCOPE \<Rightarrow> transport \<Rightarrow> string \<Rightarrow> string list \<Rightarrow> string list option \<Rightarrow> world \<Rightarrow>
     response promise \<times> world" where
  "move C t parentId childrenIds childrenFileIds w =
     (case verifyAuthorizedCommand (scope (sdk w))
             (js_bitor (CREATE_DIRECTORY C) (DELETE_DIRECTORY C))
             (Some ''UPDATE_DIRECTORY is not allowed.'') of
        Inl e \<Rightarrow> (Rejected e, w)
      | Inr _ \<Rightarrow>
          axios t \<lparr>verb = PUT, url = host (sdk w) @ ''/api/directory/'' @ parentId,
                   headers = bearer w,
                   payload = JsonBody (JObject [(''move'', JArray (map JString childrenIds)),
                     (''moveFiles'', opt_strings childrenFileIds)])\<rparr> w)"

definition deleteDirectory ::
  "OPERATION_SCOPE \<Rightarrow> transport \<Rightarrow> string \<Rightarrow> world \<Rightarrow> response promise \<times> world" where
  "deleteDirectory C t ident w =
     (case verifyAuthorizedCommand (scope (sdk w)) (DELETE_DIRECTORY C)
             (Some ''DELETE_DIRECTORY is not allowed.'') of
        Inl e \<Rightarrow> (Rejected e, w)
      | Inr _ \<Rightarrow>
          axios t \<lparr>verb = DELETE, url = host (sdk w) @ ''/api/directory/'' @ ident,
                   headers = bearer w, payload = NoBody\<rparr> w)"

text \<open>
  \<^verbatim>\<open>result.data.totalSize\<close>: reading a property of \<^verbatim>\<open>undefined\<close> or \<^verbatim>\<open>null\<close> throws a
  TypeError, an object gives the property's value or \<^verbatim>\<open>undefined\<close>, and no other value
  has a property of this name.
\<close>

fun totalSize :: "jsvalue \<Rightarrow> failure + jsvalue" where
  "totalSize JUndefined = Inl TypeError"
| "totalSize JNull = Inl TypeError"
| "totalSize (JObject props) =
     Inr (case map_of props ''totalSize'' of None \<Rightarrow> JUndefined | Some v \<Rightarrow> v)"
| "totalSize _ = Inr JUndefined"

text \<open>The promise of an \<^verbatim>\<open>async\<close> body that ends by throwing or by returning a value.\<close>

definition settle :: "failure + 'a \<Rightarrow> 'a promise" where
  "settle r = (case r of Inl e \<Rightarrow> Rejected e | Inr v \<Rightarrow> Fulfilled v)"

definition getTotalSize :: "transport \<Rightarrow> world \<Rightarrow> jsvalue promise \<times> world" where
  "getTotalSize t w =
     (case axios t \<lparr>verb = GET, url = host (sdk w) @ ''/api/total-size'',
                     headers = bearer w, payload = NoBody\<rparr> w of
        (Rejected e, w') \<Rightarrow> (Rejected e, w')
      | (Fulfilled result, w') \<Rightarrow> (settle (totalSize (data result)), w'))"

definition readDirectorySize :: "transport \<Rightarrow> string \<Rightarrow> world \<Rightarrow> jsvalue promise \<times> world" where
  "readDirectorySize t ident w =
     (case axios t \<lparr>verb = GET, url = host (sdk w) @ ''/api/directory/'' @ ident @ ''/size'',
                     headers = bearer w, payload = NoBody\<rparr> w of
        (Rejected e, w') \<Rightarrow> (Rejected e, w')
      | (Fulfilled result, w') \<Rightarrow> (settle (totalSize (data result)), w'))"

section \<open>The file operations as free functions (file.ts)\<close>

text \<open>
  Modelled from the spec: file.ts imports \<^verbatim>\<open>verifyAuthorizedCommand\<close> from \<^verbatim>\<open>./authorization\<close>,
  which is not among the sources. Section 4.2 of the specification: if the granted scope
  is 0 the check passes; otherwise it passes exactly when
  \<^verbatim>\<open>(grantedScope & requiredMask) == requiredMask\<close>; on denial the operation fails at once
  with an error carrying the operation's message.
\<close>

definition authorization_verifyAuthorizedCommand ::
  "number \<Rightarrow> number \<Rightarrow> string \<Rightarrow> failure + unit" where
  "authorization_verifyAuthorizedCommand grantedScope requiredMask message =
     (if js_strict_eq grantedScope (Fin 0) then Inr ()
      else if js_strict_eq (js_bitand grantedScope requiredMask) requiredMask then Inr ()
      else Inl (Error message))"

text \<open>
  \<^verbatim>\<open>JSON.stringify\<close> of an array of strings: each string between double quotes, with the
  double quote, the backslash and the control characters escaped, the strings separated
  by commas, the whole between brackets.
\<close>

definition hex_digit :: "nat \<Rightarrow> char" where
  "hex_digit n = ''0123456789abcdef'' ! (n mod 16)"

definition quote_char :: "char \<Rightarrow> string" where
  "quote_char c =
     (let n = of_char c :: nat in
      if n = 8 then [CHR 0x5C, CHR ''b'']
      else if n = 9 then [CHR 0x5C, CHR ''t'']
      else if n = 10 then [CHR 0x5C, CHR ''n'']
      else if n = 12 then [CHR 0x5C, CHR ''f'']
      else if n = 13 then [CHR 0x5C, CHR ''r'']
      else if n = 34 then [CHR 0x5C, CHR 0x22]
      else if n = 92 then [CHR 0x5C, CHR 0x5C]
      else if n < 32 then [CHR 0x5C, CHR ''u'', CHR ''0'', CHR ''0'', hex_digit (n div 16), hex_digit n]
      else [c])"

definition quote_string :: "string \<Rightarrow> string" where
  "quote_string s = [CHR 0x22] @ concat (map quote_char s) @ [CHR 0x22]"

definition JSON_stringify :: "string list \<Rightarrow> string" where
  "JSON_stringify xs = ''['' @ join '','' (map quote_string xs) @ '']''"

definition file_readFile ::
  "OPERATION_SCOPE \<Rightarrow> transport \<Rightarrow> string option \<Rightarrow> world \<Rightarrow> response promise \<times> world" where
  "file_readFile C t ident w =
     (case authorization_verifyAuthorizedCommand (scope (sdk w)) (READ_FILE C)
             ''READ_FILE is not allowed.'' of
        Inl e \<Rightarrow> (Rejected e, w)
      | Inr _ \<Rightarrow>
          axios t \<lparr>verb = GET, url = host (sdk w) @ ''/files/'' @ or_empty ident,
                   headers = bearer w, payload = NoBody\<rparr> w)"

definition file_uploadFile ::
  "OPERATION_SCOPE \<Rightarrow> transport \<Rightarrow> string \<Rightarrow> form_value \<Rightarrow> string \<Rightarrow> string \<Rightarrow>
     string list option \<Rightarrow> world \<Rightarrow> response promise \<times> world" where
  "file_uploadFile C t name file collectionName directoryId storageClasses w =
     (case authorization_verifyAuthorizedCommand (scope (sdk w)) (UPLOAD_FILE C)
             ''UPLOAD_FILE is not allowed.'' of
        Inl e \<Rightarrow> (Rejected e, w)
      | Inr _ \<Rightarrow>
          (let formData =
                 [(''name'', FormString name),
                  (''file'', file),
                  (''collectionName'', FormString collectionName),
                  (''directoryId'', FormString directoryId)]
                 @ (case storageClasses of
                      None \<Rightarrow> []
                    | Some xs \<Rightarrow>
                        if 0 < length xs
                        then [(''storageClasses'', FormString (JSON_stringify xs))]
                        else [])
           in axios t \<lparr>verb = POST, url = host (sdk w) @ ''/files/upload'',
                       headers = bearer w, payload = FormBody formData\<rparr> w))"

definition file_deleteFile ::
  "OPERATION_SCOPE \<Rightarrow> transport \<Rightarrow> string \<Rightarrow> world \<Rightarrow> response promise \<times> world" where
  "file_deleteFile C t ident w =
     (case authorization_verifyAuthorizedCommand (scope (sdk w)) (DELETE_FILE C)
             ''DELETE_FILE is not allowed.'' of
        Inl e \<Rightarrow> (Rejected e, w)
      | Inr _ \<Rightarrow>
          axios t \<lparr>verb = DELETE, url = host (sdk w) @ ''/files/'' @ ident,
                   headers = bearer w, payload = NoBody\<rparr> w)"

definition file_renameFile ::
  "OPERATION_SCOPE \<Rightarrow> transport \<Rightarrow> string \<Rightarrow> string \<Rightarrow> world \<Rightarrow> response promise \<times> world" where
  "file_renameFile C t ident name w =
     (case authorization_verifyAuthorizedCommand (scope (sdk w))
             (js_bitor (UPLOAD_FILE C) (DELETE_FILE C)) ''RENAME_FILE is not allowed.'' of
        Inl e \<Rightarrow> (Rejected e, w)
      | Inr _ \<Rightarrow>
          axios t \<lparr>verb = PUT, url = host (sdk w) @ ''/files/'' @ ident,
                   headers = bearer w,
                   payload = JsonBody (JObject [(''name'', JString name)])\<rparr> w)"

definition file_updateFile ::
  "OPERATION_SCOPE \<Rightarrow> transport \<Rightarrow> string \<Rightarrow> string option \<Rightarrow> string list option \<Rightarrow> world \<Rightarrow>
     response promise \<times> world" where
  "file_updateFile C t ident name storageClasses w =
     (case authorization_verifyAuthorizedCommand (scope (sdk w))
             (js_bitor (UPLOAD_FILE C) (DELETE_FILE C)) ''UPDATE_FILE is not allowed.'' of
        Inl e \<Rightarrow> (Rejected e, w)
      | Inr _ \<Rightarrow>
          axios t \<lparr>verb = PUT, url = host (sdk w) @ ''/files/'' @ ident,
                   headers = bearer w,
                   payload = JsonBody (JObject [(''name'', opt_string name),
                     (''storageClasses'', opt_strings storageClasses)])\<rparr> w)"

section \<open>The listeners (index.ts)\<close>

definition with_listener :: "(socket \<Rightarrow> socket) \<Rightarrow> world \<Rightarrow> world" where
  "with_listener f w = w\<lparr>sdk := (sdk w)\<lparr>listener := f (listener (sdk w))\<rparr>\<rparr>"

definition connect :: "world \<Rightarrow> world" where
  "connect w = with_listener (\<lambda>s. s\<lparr>active := True\<rparr>) w"

definition disconnect :: "world \<Rightarrow> world" where
  "disconnect w = with_listener (\<lambda>s. s\<lparr>active := False\<rparr>) w"

text \<open>\<^verbatim>\<open>this.listener.off('directory:change')\<close> removes every listener of the event.\<close>

definition disconnectReadDirectoryEvent :: "world \<Rightarrow> world" where
  "disconnectReadDirectoryEvent w =
     with_listener
       (\<lambda>s. s\<lparr>listeners := filter (\<lambda>l. fst l \<noteq> ''directory:change'') (listeners s)\<rparr>) w"

text \<open>\<^verbatim>\<open>this.listener.on('directory:change', callback)\<close> returns the socket.\<close>

definition onDirectoryChange :: "handler \<Rightarrow> world \<Rightarrow> socket \<times> world" where
  "onDirectoryChange callback w =
     (let w' = with_listener
                 (\<lambda>s. s\<lparr>listeners := listeners s @ [(''directory:change'', callback)]\<rparr>) w
      in (listener (sdk w'), w'))"

definition onTotalSizeChange :: "nat \<Rightarrow> world \<Rightarrow> world" where
  "onTotalSizeChange callback w = snd (onDirectoryChange (TotalSizeChange callback) w)"

definition onReadDirectoryEvent :: "string \<Rightarrow> nat \<Rightarrow> world \<Rightarrow> world" where
  "onReadDirectoryEvent ident onChange w =
     (let w1 = with_listener (\<lambda>s. s\<lparr>emitted := emitted s @ [''directory:initialize'']\<rparr>) w
      in snd (onDirectoryChange (ReadDirectoryEvent ident onChange) w1))"

definition onReadDirectorySegmentChange :: "string \<Rightarrow> nat \<Rightarrow> world \<Rightarrow> world" where
  "onReadDirectorySegmentChange segments onChange w =
     snd (onDirectoryChange (ReadDirectorySegmentChange segments onChange) w)"

text \<open>
  The bodies of the registered closures, run when a \<^verbatim>\<open>directory:change\<close> signal with the
  payload \<open>ev\<close> arrives. Each closure hands its request to the transport when it is
  run; it calls the caller back when the refresh is fulfilled, at a time of its own, and
  never when the refresh is rejected.
\<close>

definition deliver :: "nat \<Rightarrow> jsvalue \<Rightarrow> world \<Rightarrow> world" where
  "deliver callback v w = w\<lparr>delivered := add_mset (callback, v) (delivered w)\<rparr>"

fun run_handler :: "OPERATION_SCOPE \<Rightarrow> transport \<Rightarrow> jsvalue \<Rightarrow> handler \<Rightarrow> world \<Rightarrow> world" where
  "run_handler C t ev (Callback callback) w = deliver callback ev w"
| "run_handler C t ev (TotalSizeChange callback) w =
     (case getTotalSize t w of
        (Rejected e, w') \<Rightarrow> w'
      | (Fulfilled v, w') \<Rightarrow> deliver callback v w')"
| "run_handler C t ev (ReadDirectoryEvent ident onChange) w =
     (case readDirectory C t (Some ident) w of
        (Rejected e, w') \<Rightarrow> w'
      | (Fulfilled latestDirectory, w') \<Rightarrow> deliver onChange (data latestDirectory) w')"
| "run_handler C t ev (ReadDirectorySegmentChange segments onChange) w =
     (case readDirectoryBySegment C t segments w of
        (Rejected e, w') \<Rightarrow> w'
      | (Fulfilled res, w') \<Rightarrow> deliver onChange (data res) w')"

text \<open>
  The socket runs the listeners of the event in the order of their registration, so
  their requests reach the transport in that order.
\<close>

definition directory_change :: "OPERATION_SCOPE \<Rightarrow> transport \<Rightarrow> jsvalue \<Rightarrow> world \<Rightarrow> world" where
  "directory_change C t ev w =
     foldl (\<lambda>w' l. run_handler C t ev (snd l) w') w
       (filter (\<lambda>l. fst l = ''directory:change'') (listeners (listener (sdk w))))"

section \<open>The client as a whole\<close>

text \<open>One constructor for each operation of the client, with its arguments.\<close>

datatype call =
    ReadFile "string option"
  | UploadFile string form_value string string
  | DeleteFile string
  | RenameFile string string
  | ReadDirectory "string option"
  | ReadDirectoryBySegment string
  | CreateDirectory string "string option"
  | RenameDirectory string string
  | Move string "string list" "string list option"
  | DeleteDirectory string
  | GetTotalSize
  | ReadDirectorySize string
  | File_readFile "string option"
  | File_uploadFile string form_value string string "string list option"
  | File_deleteFile string
  | File_renameFile string string
  | File_updateFile string "string option" "string list option"
  | Connect
  | Disconnect
  | DisconnectReadDirectoryEvent
  | OnDirectoryChange nat
  | OnTotalSizeChange nat
  | OnReadDirectoryEvent string nat
  | OnReadDirectorySegmentChange string nat

text \<open>
  What a call gives its caller: \<open>Inl\<close> of the failure it throws, or \<open>Inr\<close> of what it
  returns, which for an \<^verbatim>\<open>async\<close> method is a promise.
\<close>

datatype answer = Response response | Value jsvalue | Undefined

datatype result = Promise "answer promise" | Void | Socket socket

definition returning ::
  "('a \<Rightarrow> answer) \<Rightarrow> 'a promise \<times> world \<Rightarrow> (failure + result) \<times> world" where
  "returning f pw = (Inr (Promise (map_promise f (fst pw))), snd pw)"

fun invoke :: "OPERATION_SCOPE \<Rightarrow> transport \<Rightarrow> call \<Rightarrow> world \<Rightarrow> (failure + result) \<times> world" where
  "invoke C t (ReadFile i) w = returning Response (readFile C t i w)"
| "invoke C t (UploadFile n f c d) w = returning Response (uploadFile C t n f c d w)"
| "invoke C t (DeleteFile i) w = returning Response (deleteFile C t i w)"
| "invoke C t (RenameFile i n) w = returning Response (renameFile C t i n w)"
| "invoke C t (ReadDirectory i) w = returning Response (readDirectory C t i w)"
| "invoke C t (ReadDirectoryBySegment p) w = returning Response (readDirectoryBySegment C t p w)"
| "invoke C t (CreateDirectory n p) w = returning Response (createDirectory C t n p w)"
| "invoke C t (RenameDirectory i n) w = returning Response (renameDirectory C t i n w)"
| "invoke C t (Move p ds fs) w = returning Response (move C t p ds fs w)"
| "invoke C t (DeleteDirectory i) w = returning Response (deleteDirectory C t i w)"
| "invoke C t GetTotalSize w = returning Value (getTotalSize t w)"
| "invoke C t (ReadDirectorySize i) w = returning Value (readDirectorySize t i w)"
| "invoke C t (File_readFile i) w = returning Response (file_readFile C t i w)"
| "invoke C t (File_uploadFile n f c d cs) w = returning Response (file_uploadFile C t n f c d cs w)"
| "invoke C t (File_deleteFile i) w = returning Response (file_deleteFile C t i w)"
| "invoke C t (File_renameFile i n) w = returning Response (file_renameFile C t i n w)"
| "invoke C t (File_updateFile i n cs) w = returning Response (file_updateFile C t i n cs w)"
| "invoke C t Connect w = (Inr Void, connect w)"
| "invoke C t Disconnect w = (Inr Void, disconnect w)"
| "invoke C t DisconnectReadDirectoryEvent w = (Inr Void, disconnectReadDirectoryEvent w)"
| "invoke C t (OnDirectoryChange cb) w =
     (Inr (Socket (fst (onDirectoryChange (Callback cb) w))),
      snd (onDirectoryChange (Callback cb) w))"
| "invoke C t (OnTotalSizeChange cb) w =
     (Inr (Promise (Fulfilled Undefined)), onTotalSizeChange cb w)"
| "invoke C t (OnReadDirectoryEvent i cb) w =
     (Inr (Promise (Fulfilled Undefined)), onReadDirectoryEvent i cb w)"
| "invoke C t (OnReadDirectorySegmentChange p cb) w =
     (Inr (Promise (Fulfilled Undefined)), onReadDirectorySegmentChange p cb w)"

text \<open>
  The table of section 4.2 of the specification: the mask each operation requires,
  \<open>None\<close> for an operation that requires none.
\<close>

fun required_mask :: "OPERATION_SCOPE \<Rightarrow> call \<Rightarrow> number option" where
  "required_mask C (ReadFile i) = Some (READ_FILE C)"
| "required_mask C (UploadFile n f c d) = Some (UPLOAD_FILE C)"
| "required_mask C (DeleteFile i) = Some (DELETE_FILE C)"
| "required_mask C (RenameFile i n) = Some (js_bitor (UPLOAD_FILE C) (DELETE_FILE C))"
| "required_mask C (ReadDirectory i) = Some (READ_DIRECTORY C)"
| "required_mask C (ReadDirectoryBySegment p) = Some (READ_DIRECTORY C)"
| "required_mask C (CreateDirectory n p) = Some (CREATE_DIRECTORY C)"
| "required_mask C (RenameDirectory i n) = Some (js_bitor (CREATE_DIRECTORY C) (DELETE_DIRECTORY C))"
| "required_mask C (Move p ds fs) = Some (js_bitor (CREATE_DIRECTORY C) (DELETE_DIRECTORY C))"
| "required_mask C (DeleteDirectory i) = Some (DELETE_DIRECTORY C)"
| "required_mask C (File_readFile i) = Some (READ_FILE C)"
| "required_mask C (File_uploadFile n f c d cs) = Some (UPLOAD_FILE C)"
| "required_mask C (File_deleteFile i) = Some (DELETE_FILE C)"
| "required_mask C (File_renameFile i n) = Some (js_bitor (UPLOAD_FILE C) (DELETE_FILE C))"
| "required_mask C (File_updateFile i n cs) = Some (js_bitor (UPLOAD_FILE C) (DELETE_FILE C))"
| "required_mask C _ = None"

text \<open>The message each operation passes to \<^verbatim>\<open>verifyAuthorizedCommand\<close>, if it calls it.\<close>

fun denial_message :: "call \<Rightarrow> string" where
  "denial_message (ReadFile i) = ''READ_FILE is not allowed.''"
| "denial_message (UploadFile n f c d) = ''UPLOAD_FILE is not allowed.''"
| "denial_message (DeleteFile i) = ''DELETE_FILE is not allowed.''"
| "denial_message (RenameFile i n) = ''RENAME_FILE is not allowed.''"
| "denial_message (ReadDirectory i) = ''READ_DIRECTORY is not allowed.''"
| "denial_message (ReadDirectoryBySegment p) = ''READ_DIRECTORY is not allowed.''"
| "denial_message (CreateDirectory n p) = ''CREATE_DIRECTORY is not allowed.''"
| "denial_message (RenameDirectory i n) = ''UPDATE_DIRECTORY is not allowed.''"
| "denial_message (Move p ds fs) = ''UPDATE_DIRECTORY is not allowed.''"
| "denial_message (DeleteDirectory i) = ''DELETE_DIRECTORY is not allowed.''"
| "denial_message (File_readFile i) = ''READ_FILE is not allowed.''"
| "denial_message (File_uploadFile n f c d cs) = ''UPLOAD_FILE is not allowed.''"
| "denial_message (File_deleteFile i) = ''DELETE_FILE is not allowed.''"
| "denial_message (File_renameFile i n) = ''RENAME_FILE is not allowed.''"
| "denial_message (File_updateFile i n cs) = ''UPDATE_FILE is not allowed.''"
| "denial_message _ = []"

text \<open>
  What happens to a client: the caller invokes an operation, or the socket delivers a
  \<^verbatim>\<open>directory:change\<close> signal. A session is the constructor followed by such events.
\<close>

datatype event = Invoke call | DirectoryChange jsvalue

fun step :: "OPERATION_SCOPE \<Rightarrow> transport \<Rightarrow> event \<Rightarrow> world \<Rightarrow> world" where
  "step C t (Invoke c) w = snd (invoke C t c w)"
| "step C t (DirectoryChange ev) w = directory_change C t ev w"

definition run :: "OPERATION_SCOPE \<Rightarrow> transport \<Rightarrow> event list \<Rightarrow> world \<Rightarrow> world" where
  "run C t es w = foldl (\<lambda>w' e. step C t e w') w es"

definition new_world :: "string option \<Rightarrow> string \<Rightarrow> world" where
  "new_world NODE_ENV key = \<lparr>sdk = new_DeltaStorageSDK NODE_ENV key, sent = [], delivered = {#}\<rparr>"

section \<open>Example values\<close>

text \<open>
  A capability table with one bit for each capability, a transport that answers every
  request with the same body, and a session built from a key whose scope field is 3.
\<close>

definition example_scope :: OPERATION_SCOPE where
  "example_scope =
     \<lparr>READ_FILE = Fin 1, UPLOAD_FILE = Fin 2, DELETE_FILE = Fin 4,
      READ_DIRECTORY = Fin 8, CREATE_DIRECTORY = Fin 16, DELETE_DIRECTORY = Fin 32\<rparr>"

definition example_response :: response where
  "example_response = \<lparr>status = 200, data = JObject [(''totalSize'', JNumber (Fin 5))]\<rparr>"

definition example_transport :: transport where
  "example_transport log req = Inr example_response"

definition example_world :: world where
  "example_world = new_world None ''k.3.u.h.e''"

definition upload_only_world :: world where
  "upload_only_world = new_world None ''k.2.u.h.e''"

definition malformed_world :: world where
  "malformed_world = new_world None ''k.abc.u.h.e''"

definition unrestricted_world :: world where
  "unrestricted_world = new_world None ''k.0.u.h.e''"

text \<open>
  A transport whose body carries the size as a Number: what axios gives for the JSON text
  of the size \<open>2 ^ 53 + 1\<close>.
\<close>

definition double_response :: response where
  "double_response =
     \<lparr>status = 200, data = JObject [(''totalSize'', JNumber (Fin 9007199254740992))]\<rparr>"

definition double_transport :: transport where
  "double_transport log req = Inr double_response"

section \<open>Notions of the specification\<close>

text \<open>The value is of the large-integer type.\<close>

definition is_bigint :: "jsvalue \<Rightarrow> bool" where
  "is_bigint v = (case v of JBigInt n \<Rightarrow> True | _ \<Rightarrow> False)"

text \<open>
  A URL on the configured host is the host (scheme and authority) followed by the rest,
  which begins with \<^verbatim>\<open>/\<close>. By RFC 3986 the path is the rest up to the first \<^verbatim>\<open>?\<close> or \<^verbatim>\<open>#\<close>,
  and the query is what follows a \<^verbatim>\<open>?\<close> at the end of the path, up to the first \<^verbatim>\<open>#\<close>.
\<close>

definition url_rest :: "string \<Rightarrow> string \<Rightarrow> string option" where
  "url_rest h u = (if prefix (h @ ''/'') u then Some (drop (length h) u) else None)"

definition path_of :: "string \<Rightarrow> string" where
  "path_of r = takeWhile (\<lambda>c. c \<noteq> CHR ''?'' \<and> c \<noteq> CHR ''#'') r"

definition query_of :: "string \<Rightarrow> string" where
  "query_of r =
     (case dropWhile (\<lambda>c. c \<noteq> CHR ''?'' \<and> c \<noteq> CHR ''#'') r of
        [] \<Rightarrow> []
      | c # q \<Rightarrow> if c = CHR ''?'' then takeWhile (\<lambda>c. c \<noteq> CHR ''#'') q else [])"

definition url_query :: "string \<Rightarrow> string \<Rightarrow> string" where
  "url_query h u = (case url_rest h u of None \<Rightarrow> [] | Some r \<Rightarrow> query_of r)"

text \<open>
  The parameters a query string carries: its pieces between the \<^verbatim>\<open>&\<close>, each divided at
  its first \<^verbatim>\<open>=\<close> into a name and a value.
\<close>

definition query_parameters :: "string \<Rightarrow> (string \<times> string) list" where
  "query_parameters q =
     map (\<lambda>p. (takeWhile (\<lambda>c. c \<noteq> CHR ''='') p, drop 1 (dropWhile (\<lambda>c. c \<noteq> CHR ''='') p)))
       (split CHR ''&'' q)"

text \<open>
  The path a request targets: the path of its URL with the dot segments removed as
  RFC 3986 (section 5.2.4) says, a segment \<^verbatim>\<open>.\<close> dropped and a segment \<^verbatim>\<open>..\<close> taking the
  segment before it away. \<open>out\<close> holds the segments kept so far, the last one first.
\<close>

fun resolve_segments :: "string list \<Rightarrow> string list \<Rightarrow> string list" where
  "resolve_segments out [] = rev out"
| "resolve_segments out (s # ss) =
     (if s = ''.'' then (if ss = [] then rev ([] # out) else resolve_segments out ss)
      else if s = ''..''
        then (if ss = [] then rev ([] # drop 1 out) else resolve_segments (drop 1 out) ss)
      else resolve_segments (s # out) ss)"

definition remove_dot_segments :: "string \<Rightarrow> string" where
  "remove_dot_segments p =
     (case p of
        [] \<Rightarrow> []
      | c # q \<Rightarrow>
          if c = CHR ''/'' then CHR ''/'' # join ''/'' (resolve_segments [] (split CHR ''/'' q))
          else p)"

definition target_path :: "string \<Rightarrow> string \<Rightarrow> string option" where
  "target_path h u =
     (case url_rest h u of None \<Rightarrow> None | Some r \<Rightarrow> Some (remove_dot_segments (path_of r)))"


section \<open>Notions for the requests and the session\<close>










text \<open>
  A path component that the query string carries as it stands: it is not empty, it has
  no control character or space, none of the characters that divide a path or a query
  or end it, and none that a reader of the query decodes (\<^verbatim>\<open>%\<close> and \<^verbatim>\<open>+\<close>).
\<close>

definition plain_component :: "string \<Rightarrow> bool" where
  "plain_component s =
     (s \<noteq> [] \<and>
      list_all (\<lambda>c. 32 < (of_char c :: nat) \<and>
          c \<notin> {CHR ''/'', CHR ''&'', CHR ''#'', CHR ''%'', CHR ''+''}) s)"

text \<open>The query string that carries the given parameters, in their order.\<close>

definition query_string :: "(string \<times> string) list \<Rightarrow> string" where
  "query_string ps = join ''&'' (map (\<lambda>p. fst p @ ''='' @ snd p) ps)"

text \<open>The requests handed to the transport between two states of the world.\<close>

definition issued :: "world \<Rightarrow> world \<Rightarrow> http_request list" where
  "issued w w' = drop (length (sent w)) (sent w')"

text \<open>The four session fields of the client.\<close>

definition session :: "world \<Rightarrow> string \<times> number \<times> string \<times> string option" where
  "session w = (apiKey (sdk w), scope (sdk w), host (sdk w), edgeToken (sdk w))"

section \<open>Properties of the authorization gate\<close>

lemma and_eq_iff_bits: "((m::int) AND k = m) = (\<forall>n. bit m n \<longrightarrow> bit k n)"
  by (auto simp: bit_eq_iff bit_and_iff)

lemma sint_int31: "0 \<le> j \<Longrightarrow> j < 2147483648 \<Longrightarrow> sint (word_of_int j :: 32 word) = j"
  by (simp add: sint_sbintrunc' signed_take_bit_int_eq_self)

lemma sint_and_eq_iff:
  assumes "0 \<le> m" "m < 2147483648"
  shows "(sint (word_of_int k AND (word_of_int m :: 32 word)) = m) = (\<forall>n. bit m n \<longrightarrow> bit k n)"
proof -
  define j where "j = m AND k"
  have j0: "0 \<le> j" using assms by (simp add: j_def)
  have j1: "j \<le> m" using assms by (simp add: j_def AND_upper1)
  have "word_of_int k AND (word_of_int m :: 32 word) = word_of_int j"
    by (simp add: of_int_and_eq j_def and.commute)
  moreover have "sint (word_of_int j :: 32 word) = j"
    using j0 j1 assms(2) by (intro sint_int31) linarith+
  ultimately have "(sint (word_of_int k AND (word_of_int m :: 32 word)) = m) = (j = m)"
    by simp
  then show ?thesis by (simp add: j_def and_eq_iff_bits)
qed

lemma isCommandAllowed_int:
  assumes "k \<noteq> 0" "0 \<le> m" "m < 2147483648"
  shows "isCommandAllowed (Fin k) (Fin m) = (\<forall>n. bit m n \<longrightarrow> bit k n)"
  using assms sint_and_eq_iff [of m k]
  by (simp add: isCommandAllowed_def js_strict_eq_def js_bitand_def ToInt32_def)

lemma isCommandAllowed_zero: "isCommandAllowed (Fin 0) flag"
  by (simp add: isCommandAllowed_def js_strict_eq_def)

lemma isCommandAllowed_not_finite:
  assumes "s = NaN \<or> s = Infinity \<or> s = NegInfinity"
  shows "isCommandAllowed s flag = (flag = Fin 0)"
  using assms
  by (auto simp: isCommandAllowed_def js_strict_eq_def js_bitand_def ToInt32_def)

text \<open>
  Claim C1, as amended. \<open>isCommandAllowed\<close> returns true for the scope 0 and every
  required mask. For a nonzero integer scope \<open>k\<close> and a required mask \<open>m\<close> with
  \<open>0 \<le> m < 2 ^ 31\<close> it returns true exactly when every bit set in \<open>m\<close> is set in \<open>k\<close>
  (a superset check, not an overlap check). A scope that is \<^verbatim>\<open>NaN\<close> or infinite has no
  bit set and passes the empty mask only.
\<close>

theorem isCommandAllowed_superset:
  "isCommandAllowed (Fin 0) flag \<and>
   (k \<noteq> 0 \<and> 0 \<le> m \<and> m < 2 ^ 31 \<longrightarrow>
      isCommandAllowed (Fin k) (Fin m) = (\<forall>n. bit m n \<longrightarrow> bit k n)) \<and>
   (s = NaN \<or> s = Infinity \<or> s = NegInfinity \<longrightarrow>
      isCommandAllowed s flag = (flag = Fin 0))"
  using isCommandAllowed_zero [of flag] isCommandAllowed_int [of k m]
    isCommandAllowed_not_finite [of s flag]
  by simp

theorem isCommandAllowed_superset_witness:
  "isCommandAllowed (Fin 0) (Fin 63) \<and>
   (3::int) \<noteq> 0 \<and> (0::int) \<le> 1 \<and> (1::int) < 2 ^ 31 \<and>
   isCommandAllowed (Fin 3) (Fin 1) = (\<forall>n. bit (1::int) n \<longrightarrow> bit (3::int) n) \<and>
   isCommandAllowed NaN (Fin 63) = (Fin 63 = Fin 0)"
  using isCommandAllowed_superset [where flag = "Fin 63" and k = 3 and m = 1 and s = NaN]
  by simp

text \<open>
  Claim C1 as stated fails for a mask that uses bit 31: \<^verbatim>\<open>2147483648 & 2147483648\<close> is
  \<^verbatim>\<open>-2147483648\<close> in JavaScript, which is not \<^verbatim>\<open>=== 2147483648\<close>, although the one bit of
  the mask is set in the scope.
\<close>

theorem isCommandAllowed_bit31_counterexample:
  "every_bit_granted 2147483648 2147483648 \<and>
   \<not> isCommandAllowed (Fin 2147483648) (Fin 2147483648)"
  by (simp add: every_bit_granted_def isCommandAllowed_def js_strict_eq_def js_bitand_def
      ToInt32_def)

section \<open>Properties of the resource operations\<close>

lemma verify_iff:
  "verifyAuthorizedCommand s m (Some msg) = (if isCommandAllowed s m then Inr () else Inl (Error msg))"
  by (simp add: verifyAuthorizedCommand_def)

lemma authorization_verify_iff:
  "authorization_verifyAuthorizedCommand s m msg = (if isCommandAllowed s m then Inr () else Inl (Error msg))"
  by (simp add: authorization_verifyAuthorizedCommand_def isCommandAllowed_def)

lemmas op_defs = readFile_def uploadFile_def deleteFile_def renameFile_def readDirectory_def
  readDirectoryBySegment_def createDirectory_def renameDirectory_def move_def deleteDirectory_def
  file_readFile_def file_uploadFile_def file_deleteFile_def file_renameFile_def file_updateFile_def

lemma invoke_denied:
  assumes "required_mask C c = Some m" "\<not> isCommandAllowed (scope (sdk w)) m"
  shows "invoke C t c w = (Inr (Promise (Rejected (Error (denial_message c)))), w)"
  using assms
  by (cases c) (simp_all add: op_defs verify_iff authorization_verify_iff returning_def)

lemma axios_once:
  "\<exists>r. snd (returning Response (axios t req w)) = w\<lparr>sent := sent w @ [r]\<rparr> \<and>
     fst (returning Response (axios t req w)) =
       Inr (Promise (case t (sent w) r of
                       Inl e \<Rightarrow> Rejected (TransportFailure e)
                     | Inr x \<Rightarrow> Fulfilled (Response x)))"
  by (rule exI [of _ req]) (simp add: axios_def returning_def split: sum.splits)

lemma invoke_allowed:
  assumes "required_mask C c = Some m" "isCommandAllowed (scope (sdk w)) m"
  shows "\<exists>req. snd (invoke C t c w) = w\<lparr>sent := sent w @ [req]\<rparr> \<and>
     fst (invoke C t c w) =
       Inr (Promise (case t (sent w) req of
                       Inl e \<Rightarrow> Rejected (TransportFailure e)
                     | Inr r \<Rightarrow> Fulfilled (Response r)))"
  using assms
  by (cases c) (simp_all add: op_defs verify_iff authorization_verify_iff Let_def axios_once)

lemma invoke_never_throws: "fst (invoke C t c w) \<noteq> Inl e"
  by (cases c) (simp_all add: returning_def)

lemmas parse_defs = parseInt_def js_parseInt_def ToString_def sign_and_rest_def
  has_hex_prefix_def is_whitespace_def is_radix_digit_def digit_of_def radix_value_def
  number_of_int_def

lemmas gate_defs = isCommandAllowed_def js_strict_eq_def js_bitand_def js_bitor_def ToInt32_def

lemma example_world_eq:
  "example_world =
     \<lparr>sdk = \<lparr>apiKey = ''k.3.u.h.e'', scope = Fin 3, host = ''https://api.delta.storage'',
              edgeToken = Some ''e'',
              listener = io ''https://api.delta.storage'' ''k.3.u.h.e'' False\<rparr>,
      sent = [], delivered = {#}\<rparr>"
  by (simp add: example_world_def new_world_def new_DeltaStorageSDK_def element_def parse_defs Let_def)

text \<open>
  Claim C2, as amended. Every operation that has a required mask (\<^verbatim>\<open>readFile\<close>,
  \<^verbatim>\<open>uploadFile\<close>, \<^verbatim>\<open>deleteFile\<close>, \<^verbatim>\<open>renameFile\<close>, \<^verbatim>\<open>updateFile\<close>, \<^verbatim>\<open>readDirectory\<close>,
  \<^verbatim>\<open>readDirectoryBySegment\<close>, \<^verbatim>\<open>createDirectory\<close>, \<^verbatim>\<open>renameDirectory\<close>, \<^verbatim>\<open>move\<close>,
  \<^verbatim>\<open>deleteDirectory\<close>, in index.ts and in file.ts) is \<^verbatim>\<open>async\<close>: a call throws nothing to
  its caller and returns a promise. When the session's scope does not allow the mask,
  that promise is rejected with the error carrying the operation's own denial message
  and the world is unchanged, so no request reached the transport; when the scope allows
  it, exactly one request is handed to the transport, nothing else changes, and the
  promise settles as the transport answers.
\<close>

theorem scoped_operation_gate:
  assumes "required_mask C c = Some m"
  shows "(if isCommandAllowed (scope (sdk w)) m
          then \<exists>req. snd (invoke C t c w) = w\<lparr>sent := sent w @ [req]\<rparr> \<and>
                 fst (invoke C t c w) =
                   Inr (Promise (case t (sent w) req of
                                   Inl e \<Rightarrow> Rejected (TransportFailure e)
                                 | Inr r \<Rightarrow> Fulfilled (Response r)))
          else invoke C t c w = (Inr (Promise (Rejected (Error (denial_message c)))), w)) \<and>
         fst (invoke C t c w) \<noteq> Inl thrown"
  using invoke_denied [OF assms] invoke_allowed [OF assms] invoke_never_throws [of C t c w thrown]
  by simp

theorem scoped_operation_gate_witness:
  "required_mask example_scope (DeleteDirectory ''d'') = Some (Fin 32) \<and>
   \<not> isCommandAllowed (scope (sdk example_world)) (Fin 32) \<and>
   invoke example_scope example_transport (DeleteDirectory ''d'') example_world =
     (Inr (Promise (Rejected (Error ''DELETE_DIRECTORY is not allowed.''))), example_world) \<and>
   required_mask example_scope (ReadFile None) = Some (Fin 1) \<and>
   isCommandAllowed (scope (sdk example_world)) (Fin 1) \<and>
   (\<exists>req. snd (invoke example_scope example_transport (ReadFile None) example_world) =
            example_world\<lparr>sent := sent example_world @ [req]\<rparr> \<and>
          fst (invoke example_scope example_transport (ReadFile None) example_world) =
            Inr (Promise (Fulfilled (Response example_response))))"
  using scoped_operation_gate [where C = example_scope and c = "DeleteDirectory ''d''"
      and m = "Fin 32" and w = example_world and t = example_transport]
    scoped_operation_gate [where C = example_scope and c = "ReadFile None"
      and m = "Fin 1" and w = example_world and t = example_transport]
  by (simp add: example_world_eq example_scope_def example_transport_def gate_defs)

text \<open>
  Claim C2 as stated fails in its word \<^verbatim>\<open>synchronously\<close>: a denied \<^verbatim>\<open>deleteDirectory\<close> throws
  nothing to its caller; it returns a promise, rejected with the denial error.
\<close>

theorem denial_not_thrown_counterexample:
  "required_mask example_scope (DeleteDirectory ''d'') = Some (Fin 32) \<and>
   \<not> isCommandAllowed (scope (sdk example_world)) (Fin 32) \<and>
   fst (invoke example_scope example_transport (DeleteDirectory ''d'') example_world) =
     Inr (Promise (Rejected (Error ''DELETE_DIRECTORY is not allowed.''))) \<and>
   fst (invoke example_scope example_transport (DeleteDirectory ''d'') example_world) \<noteq>
     Inl (Error ''DELETE_DIRECTORY is not allowed.'')"
  by (simp add: example_world_eq example_scope_def gate_defs deleteDirectory_def verify_iff
      returning_def)

section \<open>The session fields never change\<close>

lemma session_axios: "session (snd (axios t req w)) = session w"
  by (simp add: axios_def session_def)

lemma session_with_listener: "session (with_listener f w) = session w"
  by (simp add: with_listener_def session_def)

lemma session_returning: "session (snd (returning f rw)) = session (snd rw)"
  by (simp add: returning_def)

lemma session_getTotalSize: "session (snd (getTotalSize t w)) = session w"
  using session_axios [of t _ w]
  by (simp add: getTotalSize_def split: prod.splits promise.splits) (metis snd_conv)

lemma session_readDirectorySize: "session (snd (readDirectorySize t i w)) = session w"
  using session_axios [of t _ w]
  by (simp add: readDirectorySize_def split: prod.splits promise.splits) (metis snd_conv)

lemma session_invoke: "session (snd (invoke C t c w)) = session w"
  by (cases c)
    (simp_all add: session_returning op_defs session_axios Let_def session_getTotalSize
      session_readDirectorySize connect_def disconnect_def disconnectReadDirectoryEvent_def
      onDirectoryChange_def onTotalSizeChange_def onReadDirectoryEvent_def
      onReadDirectorySegmentChange_def session_with_listener split: sum.splits)

lemma session_deliver: "session (deliver cb v w) = session w"
  by (simp add: deliver_def session_def)

lemma session_run_handler: "session (run_handler C t ev h w) = session w"
proof (cases h)
  case (Callback cb)
  then show ?thesis by (simp add: session_deliver)
next
  case (TotalSizeChange cb)
  then show ?thesis
    using session_getTotalSize [of t w]
    by (auto simp: session_deliver split: prod.splits promise.splits)
next
  case (ReadDirectoryEvent i cb)
  then show ?thesis
    using session_invoke [of C t "ReadDirectory (Some i)" w]
    by (auto simp: session_deliver returning_def split: prod.splits promise.splits)
next
  case (ReadDirectorySegmentChange p cb)
  then show ?thesis
    using session_invoke [of C t "ReadDirectoryBySegment p" w]
    by (auto simp: session_deliver returning_def split: prod.splits promise.splits)
qed

lemma session_handlers:
  "session (foldl (\<lambda>w' l. run_handler C t ev (snd l) w') w ls) = session w"
  by (induction ls arbitrary: w) (simp_all add: session_run_handler)

lemma session_step: "session (step C t e w) = session w"
  by (cases e) (simp_all add: session_invoke directory_change_def session_handlers)

lemma session_run: "session (run C t es w) = session w"
  unfolding run_def by (induction es arbitrary: w) (simp_all add: session_step)

section \<open>Composite masks\<close>

lemma upload_only_world_eq:
  "upload_only_world =
     \<lparr>sdk = \<lparr>apiKey = ''k.2.u.h.e'', scope = Fin 2, host = ''https://api.delta.storage'',
              edgeToken = Some ''e'',
              listener = io ''https://api.delta.storage'' ''k.2.u.h.e'' False\<rparr>,
      sent = [], delivered = {#}\<rparr>"
  by (simp add: upload_only_world_def new_world_def new_DeltaStorageSDK_def element_def parse_defs Let_def)

lemma or_pow2_bounds:
  assumes "i < 31" "j < 31"
  shows "0 \<le> (2 ^ i OR 2 ^ j :: int)" "(2 ^ i OR 2 ^ j :: int) < 2147483648"
proof -
  show "0 \<le> (2 ^ i OR 2 ^ j :: int)" by simp
  have "(2::int) ^ i < 2 ^ 31" "(2::int) ^ j < 2 ^ 31"
    using assms by (simp_all only: power_strict_increasing_iff one_less_numeral_iff semiring_norm)
  then have "(2 ^ i OR 2 ^ j :: int) < 2 ^ 31"
    by (intro OR_upper) simp_all
  then show "(2 ^ i OR 2 ^ j :: int) < 2147483648" by simp
qed

lemma bitor_pow2:
  assumes "i < 31" "j < 31"
  shows "js_bitor (Fin (2 ^ i)) (Fin (2 ^ j)) = Fin (2 ^ i OR 2 ^ j)"
proof -
  have "word_of_int (2 ^ i) OR (word_of_int (2 ^ j) :: 32 word) = word_of_int (2 ^ i OR 2 ^ j)"
    by (simp add: of_int_or_eq)
  moreover have "sint (word_of_int (2 ^ i OR 2 ^ j) :: 32 word) = 2 ^ i OR 2 ^ j"
    using or_pow2_bounds [OF assms] by (intro sint_int31)
  ultimately show ?thesis by (simp add: js_bitor_def ToInt32_def)
qed

lemma upload_bit_alone_denied:
  assumes "i < 31" "j < 31" "i \<noteq> j"
  shows "\<not> isCommandAllowed (Fin (2 ^ i)) (js_bitor (Fin (2 ^ i)) (Fin (2 ^ j)))"
proof -
  have "isCommandAllowed (Fin (2 ^ i)) (Fin (2 ^ i OR 2 ^ j)) =
      (\<forall>n. bit (2 ^ i OR 2 ^ j :: int) n \<longrightarrow> bit (2 ^ i :: int) n)"
    using or_pow2_bounds [OF assms(1,2)] by (intro isCommandAllowed_int) simp_all
  moreover have "bit (2 ^ i OR 2 ^ j :: int) j" by (simp add: bit_or_iff bit_exp_iff)
  moreover have "\<not> bit (2 ^ i :: int) j" using assms(3) by (simp add: bit_exp_iff)
  ultimately show ?thesis using bitor_pow2 [OF assms(1,2)] by auto
qed

lemma renameFile_denied_iff:
  "(fst (renameFile C t x n v) = Rejected (Error ''RENAME_FILE is not allowed.'')) =
     (\<not> isCommandAllowed (scope (sdk v)) (js_bitor (UPLOAD_FILE C) (DELETE_FILE C)))"
  by (simp add: renameFile_def verify_iff axios_def split: sum.splits)

lemma file_renameFile_denied_iff:
  "(fst (file_renameFile C t x n v) = Rejected (Error ''RENAME_FILE is not allowed.'')) =
     (\<not> isCommandAllowed (scope (sdk v)) (js_bitor (UPLOAD_FILE C) (DELETE_FILE C)))"
  by (simp add: file_renameFile_def authorization_verify_iff axios_def split: sum.splits)

lemma file_updateFile_denied_iff:
  "(fst (file_updateFile C t x n' cs v) = Rejected (Error ''UPDATE_FILE is not allowed.'')) =
     (\<not> isCommandAllowed (scope (sdk v)) (js_bitor (UPLOAD_FILE C) (DELETE_FILE C)))"
  by (simp add: file_updateFile_def authorization_verify_iff axios_def split: sum.splits)

text \<open>
  Claim C5. \<^verbatim>\<open>renameFile\<close> (index.ts and file.ts) and \<^verbatim>\<open>updateFile\<close> (file.ts) are denied
  exactly when the scope does not allow the composite mask \<^verbatim>\<open>UPLOAD_FILE | DELETE_FILE\<close>.
  When \<^verbatim>\<open>UPLOAD_FILE\<close> and \<^verbatim>\<open>DELETE_FILE\<close> are two different capability bits and the
  session's scope is the \<^verbatim>\<open>UPLOAD_FILE\<close> bit alone, the promise of each of the three is
  rejected with its denial message and the world is unchanged: nothing is sent.
\<close>

theorem rename_update_need_upload_and_delete:
  assumes "UPLOAD_FILE C = Fin (2 ^ i)" "DELETE_FILE C = Fin (2 ^ j)"
    and "i < 31" "j < 31" "i \<noteq> j"
    and "scope (sdk w) = UPLOAD_FILE C"
  shows "(fst (renameFile C t x n v) = Rejected (Error ''RENAME_FILE is not allowed.'')) =
           (\<not> isCommandAllowed (scope (sdk v)) (js_bitor (UPLOAD_FILE C) (DELETE_FILE C))) \<and>
         (fst (file_renameFile C t x n v) = Rejected (Error ''RENAME_FILE is not allowed.'')) =
           (\<not> isCommandAllowed (scope (sdk v)) (js_bitor (UPLOAD_FILE C) (DELETE_FILE C))) \<and>
         (fst (file_updateFile C t x n' cs v) = Rejected (Error ''UPDATE_FILE is not allowed.'')) =
           (\<not> isCommandAllowed (scope (sdk v)) (js_bitor (UPLOAD_FILE C) (DELETE_FILE C))) \<and>
         renameFile C t x n w = (Rejected (Error ''RENAME_FILE is not allowed.''), w) \<and>
         file_renameFile C t x n w = (Rejected (Error ''RENAME_FILE is not allowed.''), w) \<and>
         file_updateFile C t x n' cs w = (Rejected (Error ''UPDATE_FILE is not allowed.''), w)"
proof -
  have d: "\<not> isCommandAllowed (scope (sdk w)) (js_bitor (UPLOAD_FILE C) (DELETE_FILE C))"
    using upload_bit_alone_denied [OF assms(3,4,5)] assms(1,2,6) by simp
  have "renameFile C t x n w = (Rejected (Error ''RENAME_FILE is not allowed.''), w)"
    using d by (simp add: renameFile_def verify_iff)
  moreover have "file_renameFile C t x n w = (Rejected (Error ''RENAME_FILE is not allowed.''), w)"
    using d by (simp add: file_renameFile_def authorization_verify_iff)
  moreover have "file_updateFile C t x n' cs w = (Rejected (Error ''UPDATE_FILE is not allowed.''), w)"
    using d by (simp add: file_updateFile_def authorization_verify_iff)
  ultimately show ?thesis
    using renameFile_denied_iff [of C t x n v] file_renameFile_denied_iff [of C t x n v]
      file_updateFile_denied_iff [of C t x n' cs v]
    by simp
qed

theorem rename_update_need_upload_and_delete_witness:
  "UPLOAD_FILE example_scope = Fin (2 ^ 1) \<and> DELETE_FILE example_scope = Fin (2 ^ 2) \<and>
   (1::nat) < 31 \<and> (2::nat) < 31 \<and> (1::nat) \<noteq> 2 \<and>
   scope (sdk upload_only_world) = UPLOAD_FILE example_scope \<and>
   renameFile example_scope example_transport ''f'' ''n'' upload_only_world =
     (Rejected (Error ''RENAME_FILE is not allowed.''), upload_only_world) \<and>
   file_renameFile example_scope example_transport ''f'' ''n'' upload_only_world =
     (Rejected (Error ''RENAME_FILE is not allowed.''), upload_only_world) \<and>
   file_updateFile example_scope example_transport ''f'' (Some ''n'') None upload_only_world =
     (Rejected (Error ''UPDATE_FILE is not allowed.''), upload_only_world)"
  using rename_update_need_upload_and_delete [where C = example_scope and i = 1 and j = 2
      and w = upload_only_world and t = example_transport and x = "''f''" and n = "''n''"
      and v = upload_only_world and n' = "Some ''n''" and cs = None]
  by (simp add: example_scope_def upload_only_world_eq)

section \<open>The size queries\<close>

lemma getTotalSize_sent:
  "snd (getTotalSize t w) =
     w\<lparr>sent := sent w @ [\<lparr>verb = GET, url = host (sdk w) @ ''/api/total-size'',
                             headers = bearer w, payload = NoBody\<rparr>]\<rparr>"
  by (simp add: getTotalSize_def axios_def split: sum.splits promise.splits)

lemma readDirectorySize_sent:
  "snd (readDirectorySize t i w) =
     w\<lparr>sent := sent w @ [\<lparr>verb = GET, url = host (sdk w) @ ''/api/directory/'' @ i @ ''/size'',
                             headers = bearer w, payload = NoBody\<rparr>]\<rparr>"
  by (simp add: readDirectorySize_def axios_def split: sum.splits promise.splits)

lemma totalSize_not_Error: "settle (totalSize v) \<noteq> Rejected (Error msg)"
  by (cases v) (simp_all add: settle_def)

lemma getTotalSize_not_Error: "fst (getTotalSize t w) \<noteq> Rejected (Error msg)"
  by (simp add: getTotalSize_def axios_def totalSize_not_Error split: sum.splits promise.splits)

lemma readDirectorySize_not_Error: "fst (readDirectorySize t i w) \<noteq> Rejected (Error msg)"
  by (simp add: readDirectorySize_def axios_def totalSize_not_Error split: sum.splits promise.splits)

lemma getTotalSize_any_scope:
  "fst (getTotalSize t (w\<lparr>sdk := (sdk w)\<lparr>scope := s\<rparr>\<rparr>)) = fst (getTotalSize t w)"
  by (simp add: getTotalSize_def axios_def bearer_def split: sum.splits promise.splits)

lemma readDirectorySize_any_scope:
  "fst (readDirectorySize t i (w\<lparr>sdk := (sdk w)\<lparr>scope := s\<rparr>\<rparr>)) = fst (readDirectorySize t i w)"
  by (simp add: readDirectorySize_def axios_def bearer_def split: sum.splits promise.splits)

text \<open>
  Claim C7. \<^verbatim>\<open>getTotalSize\<close> and \<^verbatim>\<open>readDirectorySize\<close> check no scope: in every world they
  hand their request to the transport, their promise is never rejected with the error
  of \<^verbatim>\<open>verifyAuthorizedCommand\<close>, and how it settles does not depend on the scope.
\<close>

theorem size_queries_not_gated:
  "snd (getTotalSize t w) =
     w\<lparr>sent := sent w @ [\<lparr>verb = GET, url = host (sdk w) @ ''/api/total-size'',
                             headers = bearer w, payload = NoBody\<rparr>]\<rparr> \<and>
   fst (getTotalSize t w) \<noteq> Rejected (Error msg) \<and>
   fst (getTotalSize t (w\<lparr>sdk := (sdk w)\<lparr>scope := s\<rparr>\<rparr>)) = fst (getTotalSize t w) \<and>
   snd (readDirectorySize t i w) =
     w\<lparr>sent := sent w @ [\<lparr>verb = GET, url = host (sdk w) @ ''/api/directory/'' @ i @ ''/size'',
                             headers = bearer w, payload = NoBody\<rparr>]\<rparr> \<and>
   fst (readDirectorySize t i w) \<noteq> Rejected (Error msg) \<and>
   fst (readDirectorySize t i (w\<lparr>sdk := (sdk w)\<lparr>scope := s\<rparr>\<rparr>)) = fst (readDirectorySize t i w)"
  using getTotalSize_sent [of t w] getTotalSize_not_Error [of t w msg]
    getTotalSize_any_scope [where t = t and w = w and s = s] readDirectorySize_sent [of t i w]
    readDirectorySize_not_Error [of t i w msg]
    readDirectorySize_any_scope [where t = t and w = w and s = s and i = i]
  by simp

section \<open>A key whose scope is not a number\<close>

lemma scope_run: "scope (sdk (run C t es w)) = scope (sdk w)"
  using session_run [of C t es w] by (simp add: session_def)

lemma isCommandAllowed_NaN: "isCommandAllowed NaN m = (m = Fin 0)"
  using isCommandAllowed_not_finite [of NaN m] by simp

lemma malformed_new_world:
  "new_world None ''k.abc.u.h.e'' =
     \<lparr>sdk = \<lparr>apiKey = ''k.abc.u.h.e'', scope = NaN, host = ''https://api.delta.storage'',
              edgeToken = Some ''e'',
              listener = io ''https://api.delta.storage'' ''k.abc.u.h.e'' False\<rparr>,
      sent = [], delivered = {#}\<rparr>"
  by (simp add: new_world_def new_DeltaStorageSDK_def element_def parse_defs Let_def)

text \<open>
  Claim C8. When \<^verbatim>\<open>parseInt\<close> of the key's second field (\<^verbatim>\<open>undefined\<close> for a key with no
  dot) is \<^verbatim>\<open>NaN\<close>, the constructor returns a client whose scope is \<^verbatim>\<open>NaN\<close>; the
  constructor has no failing branch. In every later state of the session, an operation
  whose required mask is not 0 returns a promise rejected with its denial message and
  sends nothing, while
  \<^verbatim>\<open>getTotalSize\<close> and \<^verbatim>\<open>readDirectorySize\<close> send their request.
\<close>

theorem malformed_scope_denies:
  assumes "parseInt (element (split CHR ''.'' key) 1) = NaN"
    and "w = run C t es (new_world env key)"
  shows "scope (new_DeltaStorageSDK env key) = NaN \<and>
         scope (sdk w) = NaN \<and>
         (required_mask C c = Some m \<and> m \<noteq> Fin 0 \<longrightarrow>
            invoke C t c w = (Inr (Promise (Rejected (Error (denial_message c)))), w)) \<and>
         snd (getTotalSize t w) =
           w\<lparr>sent := sent w @ [\<lparr>verb = GET, url = host (sdk w) @ ''/api/total-size'',
                                   headers = bearer w, payload = NoBody\<rparr>]\<rparr> \<and>
         fst (getTotalSize t w) \<noteq> Rejected (Error msg) \<and>
         snd (readDirectorySize t i w) =
           w\<lparr>sent := sent w @ [\<lparr>verb = GET,
                                   url = host (sdk w) @ ''/api/directory/'' @ i @ ''/size'',
                                   headers = bearer w, payload = NoBody\<rparr>]\<rparr> \<and>
         fst (readDirectorySize t i w) \<noteq> Rejected (Error msg)"
proof -
  have s0: "scope (new_DeltaStorageSDK env key) = NaN"
    using assms(1) by (simp add: new_DeltaStorageSDK_def Let_def)
  then have s: "scope (sdk w) = NaN"
    using assms(2) scope_run [of C t es "new_world env key"] by (simp add: new_world_def)
  have "invoke C t c w = (Inr (Promise (Rejected (Error (denial_message c)))), w)"
    if "required_mask C c = Some m" "m \<noteq> Fin 0"
    using that s invoke_denied [of C c m w t] by (simp add: isCommandAllowed_NaN)
  then show ?thesis
    using s0 s getTotalSize_sent [of t w] getTotalSize_not_Error [of t w msg]
      readDirectorySize_sent [of t i w] readDirectorySize_not_Error [of t i w msg]
    by simp
qed

theorem malformed_scope_denies_witness:
  "parseInt (element (split CHR ''.'' ''k.abc.u.h.e'') 1) = NaN \<and>
   malformed_world = run example_scope example_transport [] (new_world None ''k.abc.u.h.e'') \<and>
   scope (sdk malformed_world) = NaN \<and>
   required_mask example_scope (ReadFile None) = Some (Fin 1) \<and> Fin 1 \<noteq> Fin 0 \<and>
   invoke example_scope example_transport (ReadFile None) malformed_world =
     (Inr (Promise (Rejected (Error ''READ_FILE is not allowed.''))), malformed_world) \<and>
   sent (snd (getTotalSize example_transport malformed_world)) =
     [\<lparr>verb = GET, url = ''https://api.delta.storage/api/total-size'',
       headers = [(''Authorization'', ''Bearer k.abc.u.h.e'')], payload = NoBody\<rparr>]"
  using malformed_scope_denies [where key = "''k.abc.u.h.e''" and w = malformed_world
      and C = example_scope and t = example_transport and es = "[]" and env = None
      and c = "ReadFile None" and m = "Fin 1" and i = "''d''" and msg = "''x''"]
  by (simp add: malformed_world_def malformed_new_world run_def element_def parse_defs
      example_scope_def bearer_def)

section \<open>The constructor and the life of the session\<close>

lemma parseInt_radix:
  "js_parseInt s 0 = (if has_hex_prefix s then js_parseInt s 16 else js_parseInt s 10)"
  by (simp add: js_parseInt_def Let_def)

text \<open>
  Claim C10, as amended. The constructor keeps the key as \<open>apiKey\<close>, splits it at the dots,
  reads the second field with \<^verbatim>\<open>parseInt\<close> and no radix (base 10, unless the field begins,
  after white space and a sign, with \<^verbatim>\<open>0x\<close> or \<^verbatim>\<open>0X\<close>: then base 16) and keeps the fifth
  field as it is as \<open>edgeToken\<close> (\<^verbatim>\<open>undefined\<close> when there is none). No operation parses
  the key again: the operations read the fields, and after any sequence of operations
  and \<^verbatim>\<open>directory:change\<close> signals \<open>apiKey\<close>, \<open>scope\<close>, \<open>host\<close> and \<open>edgeToken\<close> are what
  they were.
\<close>

theorem session_fixed_at_construction:
  "apiKey (new_DeltaStorageSDK env key) = key \<and>
   scope (new_DeltaStorageSDK env key) =
     (let field = ToString (element (split CHR ''.'' key) 1)
      in if has_hex_prefix field then js_parseInt field 16 else js_parseInt field 10) \<and>
   edgeToken (new_DeltaStorageSDK env key) = element (split CHR ''.'' key) 4 \<and>
   session (run C t es w) = session w"
  using session_run [of C t es w] parseInt_radix [of "ToString (element (split CHR ''.'' key) 1)"]
  by (simp add: new_DeltaStorageSDK_def Let_def parseInt_def)

theorem session_fixed_at_construction_witness:
  "apiKey (new_DeltaStorageSDK None ''k.3.u.h.e'') = ''k.3.u.h.e'' \<and>
   scope (new_DeltaStorageSDK None ''k.3.u.h.e'') = Fin 3 \<and>
   edgeToken (new_DeltaStorageSDK None ''k.3.u.h.e'') = Some ''e'' \<and>
   session (run example_scope example_transport
       [Invoke Connect, Invoke (ReadFile None), DirectoryChange JNull, Invoke GetTotalSize]
       example_world) =
     (''k.3.u.h.e'', Fin 3, ''https://api.delta.storage'', Some ''e'')"
  using session_fixed_at_construction [where env = None and key = "''k.3.u.h.e''"
      and C = example_scope and t = example_transport and w = example_world
      and es = "[Invoke Connect, Invoke (ReadFile None), DirectoryChange JNull, Invoke GetTotalSize]"]
  by (simp add: example_world_eq session_def element_def parse_defs Let_def)

text \<open>
  Claim C10 as stated fails for a scope field with a hexadecimal prefix: \<^verbatim>\<open>parseInt("0x10")\<close>
  is 16, while the field read as a base-10 integer is 0.
\<close>

theorem scope_hex_counterexample:
  "scope (new_DeltaStorageSDK None ''k.0x10.u.h.e'') = Fin 16 \<and>
   parse_base10 (element (split CHR ''.'' ''k.0x10.u.h.e'') 1) = Fin 0"
  by (simp add: new_DeltaStorageSDK_def element_def parse_defs parse_base10_def Let_def)

section \<open>What the size queries return\<close>

text \<open>
  Claim C3. The code breaks it: \<^verbatim>\<open>getTotalSize\<close> and \<^verbatim>\<open>readDirectorySize\<close> are declared to
  return a bigint, and they return the property \<open>totalSize\<close> of the body as axios
  delivers it, converting nothing. For the JSON text of the size \<open>2 ^ 53 + 1\<close> the body
  carries the nearest Number, \<open>2 ^ 53\<close>; that Number is what both operations return: it
  is no BigInt, and it is not the size.
\<close>

theorem size_queries_return_number:
  "number_of_int 9007199254740993 = Fin 9007199254740992 \<and>
   fst (getTotalSize double_transport example_world) =
     Fulfilled (JNumber (Fin 9007199254740992)) \<and>
   fst (readDirectorySize double_transport ''d'' example_world) =
     Fulfilled (JNumber (Fin 9007199254740992)) \<and>
   \<not> is_bigint (JNumber (Fin 9007199254740992))"
  by (simp add: getTotalSize_def readDirectorySize_def axios_def double_transport_def
      double_response_def is_bigint_def settle_def number_of_int_def ulp.simps)

section \<open>Path segments\<close>

lemma split_no_separator: "c \<notin> set x \<Longrightarrow> split c x = [x]"
  by (induction x) auto

lemma split_at_separator: "c \<notin> set x \<Longrightarrow> split c (x @ c # r) = x # split c r"
  by (induction x) auto

lemma split_join:
  assumes "cs \<noteq> []" "\<forall>x\<in>set cs. c \<notin> set x"
  shows "split c (join [c] cs) = cs"
  using assms
proof (induction cs rule: list_nonempty_induct)
  case (single x)
  then show ?case by (simp add: split_no_separator)
next
  case (cons x xs)
  then obtain y ys where xs: "xs = y # ys" by (cases xs) auto
  from cons show ?case by (simp add: xs split_at_separator)
qed

lemma join_segments:
  assumes "cs \<noteq> []"
  shows "''segment='' @ join ''&segment='' cs = query_string (map (Pair ''segment'') cs)"
  using assms
proof (induction cs rule: list_nonempty_induct)
  case (single x)
  then show ?case by (simp add: query_string_def)
next
  case (cons x xs)
  then obtain y ys where xs: "xs = y # ys" by (cases xs) auto
  from cons show ?case by (simp add: xs query_string_def)
qed

lemma query_parameters_segments:
  assumes "cs \<noteq> []" "\<forall>c\<in>set cs. CHR ''&'' \<notin> set c"
  shows "query_parameters (query_string (map (Pair ''segment'') cs)) = map (Pair ''segment'') cs"
proof -
  have "split CHR ''&'' (join ''&'' (map (\<lambda>c. ''segment='' @ c) cs)) = map (\<lambda>c. ''segment='' @ c) cs"
    using assms by (intro split_join) auto
  then show ?thesis
    by (simp add: query_parameters_def query_string_def comp_def)
qed

lemma set_join: "set (join sep xs) \<subseteq> set sep \<union> \<Union> (set ` set xs)"
  by (induction sep xs rule: join.induct) auto

lemma query_string_no_hash:
  assumes "\<forall>c\<in>set cs. CHR ''#'' \<notin> set c"
  shows "CHR ''#'' \<notin> set (query_string (map (Pair ''segment'') cs))"
proof
  assume "CHR ''#'' \<in> set (query_string (map (Pair ''segment'') cs))"
  then have "CHR ''#'' \<in> set ''&'' \<union> \<Union> (set ` set (map (\<lambda>c. ''segment='' @ c) cs))"
    using set_join [of "''&''" "map (\<lambda>c. ''segment='' @ c) cs"]
    by (auto simp: query_string_def comp_def)
  then show False using assms by (auto split: if_splits)
qed

lemma query_of_directory:
  assumes "CHR ''#'' \<notin> set q"
  shows "query_of (''/api/directory?'' @ q) = q"
  using assms by (auto simp: query_of_def takeWhile_eq_all_conv)

lemma url_rest_host: "url_rest h (h @ CHR ''/'' # r) = Some (CHR ''/'' # r)"
  by (simp add: url_rest_def)

lemma plain_componentD:
  assumes "plain_component c"
  shows "c \<noteq> []" "CHR ''/'' \<notin> set c" "CHR ''&'' \<notin> set c" "CHR ''#'' \<notin> set c"
  using assms by (auto simp: plain_component_def list_all_iff)

lemma unrestricted_world_eq:
  "unrestricted_world =
     \<lparr>sdk = \<lparr>apiKey = ''k.0.u.h.e'', scope = Fin 0, host = ''https://api.delta.storage'',
              edgeToken = Some ''e'',
              listener = io ''https://api.delta.storage'' ''k.0.u.h.e'' False\<rparr>,
      sent = [], delivered = {#}\<rparr>"
  by (simp add: unrestricted_world_def new_world_def new_DeltaStorageSDK_def element_def parse_defs Let_def)

text \<open>
  Claim C6, as amended. Take a session whose host is the constructor's and a path made
  of the components \<open>cs\<close> joined by \<^verbatim>\<open>/\<close>, every component nonempty and free of \<^verbatim>\<open>&\<close>,
  \<^verbatim>\<open>#\<close>, \<^verbatim>\<open>%\<close>, \<^verbatim>\<open>+\<close>, spaces and control characters. An allowed \<^verbatim>\<open>readDirectoryBySegment\<close> sends
  one GET request to the path \<^verbatim>\<open>/api/directory\<close> of the host, and the query string of its
  URL carries exactly the parameters \<^verbatim>\<open>segment=c\<close>, one for each component, in the order
  of the components: none is empty and none is added in front or behind. The components
  are not percent-encoded.
\<close>

theorem segments_in_order:
  assumes "cs \<noteq> []"
    and "\<forall>c\<in>set cs. plain_component c"
    and "isCommandAllowed (scope (sdk w)) (READ_DIRECTORY C)"
    and "host (sdk w) = host (new_DeltaStorageSDK env key)"
  shows "\<exists>req. snd (readDirectoryBySegment C t (join ''/'' cs) w) = w\<lparr>sent := sent w @ [req]\<rparr> \<and>
           verb req = GET \<and> headers req = bearer w \<and> payload req = NoBody \<and>
           target_path (host (sdk w)) (url req) = Some ''/api/directory'' \<and>
           query_parameters (url_query (host (sdk w)) (url req)) = map (Pair ''segment'') cs"
proof -
  define q where "q = query_string (map (Pair ''segment'') cs)"
  define req where
    "req = \<lparr>verb = GET, url = host (sdk w) @ ''/api/directory?'' @ q,
            headers = bearer w, payload = NoBody\<rparr>"
  have s: "split CHR ''/'' (join ''/'' cs) = cs"
    using assms(1,2) by (intro split_join) (auto dest: plain_componentD)
  have sent: "snd (readDirectoryBySegment C t (join ''/'' cs) w) = w\<lparr>sent := sent w @ [req]\<rparr>"
    using s assms(3) join_segments [OF assms(1)]
    by (simp add: readDirectoryBySegment_def verify_iff axios_def req_def q_def)
  have h: "CHR ''#'' \<notin> set q"
    unfolding q_def using assms(2) by (intro query_string_no_hash) (auto dest: plain_componentD)
  have rest: "url_rest (host (sdk w)) (url req) = Some (''/api/directory?'' @ q)"
    using url_rest_host [of "host (sdk w)" "''api/directory?'' @ q"] by (simp add: req_def)
  have query: "url_query (host (sdk w)) (url req) = q"
    using rest query_of_directory [OF h] by (simp add: url_query_def)
  have params: "query_parameters q = map (Pair ''segment'') cs"
    unfolding q_def using assms(1,2)
    by (intro query_parameters_segments) (auto dest: plain_componentD)
  have path: "target_path (host (sdk w)) (url req) = Some ''/api/directory''"
    using rest by (simp add: target_path_def path_of_def remove_dot_segments_def)
  show ?thesis
    using sent query params path by (intro exI [of _ req]) (simp add: req_def)
qed

theorem segments_in_order_witness:
  "[''a'', ''b'', ''c''] \<noteq> [] \<and>
   list_all plain_component [''a'', ''b'', ''c''] \<and>
   isCommandAllowed (scope (sdk unrestricted_world)) (READ_DIRECTORY example_scope) \<and>
   host (sdk unrestricted_world) = host (new_DeltaStorageSDK None ''k.0.u.h.e'') \<and>
   join ''/'' [''a'', ''b'', ''c''] = ''a/b/c'' \<and>
   sent (snd (readDirectoryBySegment example_scope example_transport ''a/b/c'' unrestricted_world)) =
     [\<lparr>verb = GET, url = ''https://api.delta.storage/api/directory?segment=a&segment=b&segment=c'',
       headers = [(''Authorization'', ''Bearer k.0.u.h.e'')], payload = NoBody\<rparr>] \<and>
   query_parameters (url_query ''https://api.delta.storage''
       ''https://api.delta.storage/api/directory?segment=a&segment=b&segment=c'') =
     [(''segment'', ''a''), (''segment'', ''b''), (''segment'', ''c'')]"
  using segments_in_order [where cs = "[''a'', ''b'', ''c'']" and w = unrestricted_world
      and C = example_scope and t = example_transport and env = None and key = "''k.0.u.h.e''"]
  by (simp add: unrestricted_world_eq example_scope_def gate_defs bearer_def plain_component_def
      readDirectoryBySegment_def verify_iff axios_def Let_def new_DeltaStorageSDK_def
      url_query_def url_rest_def query_of_def query_parameters_def)

text \<open>
  Claim C6 as stated fails for a component that contains \<^verbatim>\<open>&\<close> or \<^verbatim>\<open>#\<close>. The path
  \<^verbatim>\<open>a&segment=b\<close> has one component, and the query string built for it carries two
  \<^verbatim>\<open>segment\<close> parameters, the same as for the path \<^verbatim>\<open>a/b\<close>. The path \<^verbatim>\<open>a#x/b\<close> has two
  components, and the query string of its URL ends before the \<^verbatim>\<open>#\<close>: it carries one.
\<close>

theorem segment_ampersand_counterexample:
  "split CHR ''/'' ''a&segment=b'' = [''a&segment=b''] \<and>
   sent (snd (readDirectoryBySegment example_scope example_transport ''a&segment=b''
       unrestricted_world)) =
     [\<lparr>verb = GET, url = ''https://api.delta.storage/api/directory?segment=a&segment=b'',
       headers = [(''Authorization'', ''Bearer k.0.u.h.e'')], payload = NoBody\<rparr>] \<and>
   query_parameters (url_query ''https://api.delta.storage''
       ''https://api.delta.storage/api/directory?segment=a&segment=b'') =
     [(''segment'', ''a''), (''segment'', ''b'')] \<and>
   split CHR ''/'' ''a#x/b'' = [''a#x'', ''b''] \<and>
   sent (snd (readDirectoryBySegment example_scope example_transport ''a#x/b''
       unrestricted_world)) =
     [\<lparr>verb = GET, url = ''https://api.delta.storage/api/directory?segment=a#x&segment=b'',
       headers = [(''Authorization'', ''Bearer k.0.u.h.e'')], payload = NoBody\<rparr>] \<and>
   query_parameters (url_query ''https://api.delta.storage''
       ''https://api.delta.storage/api/directory?segment=a#x&segment=b'') =
     [(''segment'', ''a'')]"
  by (simp add: unrestricted_world_eq example_scope_def gate_defs readDirectoryBySegment_def
      verify_iff axios_def bearer_def query_parameters_def Let_def url_query_def url_rest_def
      query_of_def)

section \<open>Where the requests go\<close>







lemma issued_append: "sent w' = sent w @ rs \<Longrightarrow> issued w w' = rs"
  by (simp add: issued_def)





section \<open>The upload form\<close>

text \<open>
  Claim C4, as amended. An allowed \<^verbatim>\<open>uploadFile\<close> of index.ts posts a form that contains the
  name, the file, the collection name, the directory id and the session's edge token
  (the method takes no storage classes). An allowed \<^verbatim>\<open>uploadFile\<close> of file.ts posts a form
  that contains the name, the file, the collection name, the directory id and, when a
  nonempty list of storage classes is given, the field \<^verbatim>\<open>storageClasses\<close> with the JSON
  text of the list.
\<close>

theorem upload_payload:
  assumes "isCommandAllowed (scope (sdk w)) (UPLOAD_FILE C)"
  shows "(\<exists>formData.
            snd (uploadFile C t name blob collectionName directoryId w) =
              w\<lparr>sent := sent w @ [\<lparr>verb = POST, url = host (sdk w) @ ''/api/files/upload'',
                                      headers = bearer w, payload = FormBody formData\<rparr>]\<rparr> \<and>
            (''name'', FormString name) \<in> set formData \<and>
            (''file'', blob) \<in> set formData \<and>
            (''collectionName'', FormString collectionName) \<in> set formData \<and>
            (''directoryId'', FormString directoryId) \<in> set formData \<and>
            (''edgeToken'', FormString (ToString (edgeToken (sdk w)))) \<in> set formData) \<and>
         (\<exists>formData.
            snd (file_uploadFile C t name blob collectionName directoryId storageClasses w) =
              w\<lparr>sent := sent w @ [\<lparr>verb = POST, url = host (sdk w) @ ''/files/upload'',
                                      headers = bearer w, payload = FormBody formData\<rparr>]\<rparr> \<and>
            (''name'', FormString name) \<in> set formData \<and>
            (''file'', blob) \<in> set formData \<and>
            (''collectionName'', FormString collectionName) \<in> set formData \<and>
            (''directoryId'', FormString directoryId) \<in> set formData \<and>
            (case storageClasses of
               None \<Rightarrow> True
             | Some xs \<Rightarrow> xs = [] \<or> (''storageClasses'', FormString (JSON_stringify xs)) \<in> set formData))"
proof (intro conjI)
  show "\<exists>formData.
            snd (uploadFile C t name blob collectionName directoryId w) =
              w\<lparr>sent := sent w @ [\<lparr>verb = POST, url = host (sdk w) @ ''/api/files/upload'',
                                      headers = bearer w, payload = FormBody formData\<rparr>]\<rparr> \<and>
            (''name'', FormString name) \<in> set formData \<and>
            (''file'', blob) \<in> set formData \<and>
            (''collectionName'', FormString collectionName) \<in> set formData \<and>
            (''directoryId'', FormString directoryId) \<in> set formData \<and>
            (''edgeToken'', FormString (ToString (edgeToken (sdk w)))) \<in> set formData"
    using assms
    by (intro exI [of _ "[(''name'', FormString name), (''file'', blob),
          (''collectionName'', FormString collectionName), (''directoryId'', FormString directoryId),
          (''edgeToken'', FormString (ToString (edgeToken (sdk w))))]"])
      (simp add: uploadFile_def verify_iff axios_def Let_def)
  show "\<exists>formData.
            snd (file_uploadFile C t name blob collectionName directoryId storageClasses w) =
              w\<lparr>sent := sent w @ [\<lparr>verb = POST, url = host (sdk w) @ ''/files/upload'',
                                      headers = bearer w, payload = FormBody formData\<rparr>]\<rparr> \<and>
            (''name'', FormString name) \<in> set formData \<and>
            (''file'', blob) \<in> set formData \<and>
            (''collectionName'', FormString collectionName) \<in> set formData \<and>
            (''directoryId'', FormString directoryId) \<in> set formData \<and>
            (case storageClasses of
               None \<Rightarrow> True
             | Some xs \<Rightarrow> xs = [] \<or> (''storageClasses'', FormString (JSON_stringify xs)) \<in> set formData)"
    using assms
    by (intro exI [of _ "[(''name'', FormString name), (''file'', blob),
          (''collectionName'', FormString collectionName), (''directoryId'', FormString directoryId)]
          @ (case storageClasses of None \<Rightarrow> []
             | Some xs \<Rightarrow> if 0 < length xs then [(''storageClasses'', FormString (JSON_stringify xs))] else [])"])
      (simp add: file_uploadFile_def authorization_verify_iff axios_def Let_def split: option.splits)
qed

theorem upload_payload_witness:
  "isCommandAllowed (scope (sdk example_world)) (UPLOAD_FILE example_scope) \<and>
   sent (snd (uploadFile example_scope example_transport ''n'' (FormFile ''bytes'') ''c'' ''d''
       example_world)) =
     [\<lparr>verb = POST, url = ''https://api.delta.storage/api/files/upload'',
       headers = [(''Authorization'', ''Bearer k.3.u.h.e'')],
       payload = FormBody
         [(''name'', FormString ''n''), (''file'', FormFile ''bytes''),
          (''collectionName'', FormString ''c''), (''directoryId'', FormString ''d''),
          (''edgeToken'', FormString ''e'')]\<rparr>] \<and>
   sent (snd (file_uploadFile example_scope example_transport ''n'' (FormFile ''bytes'') ''c'' ''d''
       (Some [''hot'', ''warm'']) example_world)) =
     [\<lparr>verb = POST, url = ''https://api.delta.storage/files/upload'',
       headers = [(''Authorization'', ''Bearer k.3.u.h.e'')],
       payload = FormBody
         [(''name'', FormString ''n''), (''file'', FormFile ''bytes''),
          (''collectionName'', FormString ''c''), (''directoryId'', FormString ''d''),
          (''storageClasses'',
           FormString (''['' @ [CHR 0x22] @ ''hot'' @ [CHR 0x22] @ '','' @
                       [CHR 0x22] @ ''warm'' @ [CHR 0x22] @ '']''))]\<rparr>]"
  using upload_payload [where w = example_world and C = example_scope and t = example_transport
      and name = "''n''" and blob = "FormFile ''bytes''" and collectionName = "''c''"
      and directoryId = "''d''" and storageClasses = "Some [''hot'', ''warm'']"]
  by (simp add: example_world_eq example_scope_def gate_defs uploadFile_def file_uploadFile_def
      verify_iff authorization_verify_iff axios_def bearer_def ToString_def JSON_stringify_def
      quote_string_def quote_char_def Let_def)

text \<open>
  Claim C4 as stated fails for \<^verbatim>\<open>uploadFile\<close> of file.ts: the form it posts has no field
  \<^verbatim>\<open>edgeToken\<close>, although the session has an edge token.
\<close>

theorem file_upload_edgeToken_counterexample:
  "sent (snd (file_uploadFile example_scope example_transport ''n'' (FormFile ''bytes'') ''c'' ''d''
       (Some [''hot'']) example_world)) =
     [\<lparr>verb = POST, url = ''https://api.delta.storage/files/upload'',
       headers = [(''Authorization'', ''Bearer k.3.u.h.e'')],
       payload = FormBody
         [(''name'', FormString ''n''), (''file'', FormFile ''bytes''),
          (''collectionName'', FormString ''c''), (''directoryId'', FormString ''d''),
          (''storageClasses'',
           FormString (''['' @ [CHR 0x22] @ ''hot'' @ [CHR 0x22] @ '']''))]\<rparr>] \<and>
   map_of
     [(''name'', FormString ''n''), (''file'', FormFile ''bytes''),
      (''collectionName'', FormString ''c''), (''directoryId'', FormString ''d''),
      (''storageClasses'', FormString (''['' @ [CHR 0x22] @ ''hot'' @ [CHR 0x22] @ '']''))]
     ''edgeToken'' = None \<and>
   edgeToken (sdk example_world) = Some ''e''"
  by (simp add: example_world_eq example_scope_def gate_defs file_uploadFile_def
      authorization_verify_iff axios_def bearer_def JSON_stringify_def
      quote_string_def quote_char_def Let_def)

end
